theory Spec2Isabelle
  imports Main
begin


section \<open>Positions, tokens and nodes\<close>

text \<open>
  Source texts and token texts are JavaScript strings. A \<^typ>\<open>char\<close> of the model stands
  for one code unit, so \<^term>\<open>length\<close> counts what \<^verbatim>\<open>String.length\<close> counts.
\<close>

text \<open>
  Modelled from the spec: \<^verbatim>\<open>Position.ts\<close> is not among the sources; the spec gives
  \<^verbatim>\<open>{index, line, column}\<close>, all numbers, and the lexer uses exactly these fields.
\<close>

record Position =
  index :: nat
  line :: nat
  column :: nat

datatype TokenType =
  TError | TComment | TDocumentationComment | TDelimiter | TString | TNumber | TIdentifier | TEnd

text \<open>
  \<^verbatim>\<open>class Token { type; range: { start; end }; text; value }\<close>. The two positions
  of \<^verbatim>\<open>range\<close> are the fields \<open>tok_start\<close> and \<open>tok_end\<close>.
\<close>

record Token =
  tok_type :: TokenType
  tok_start :: Position
  tok_end :: Position
  tok_text :: string
  tok_value :: string


section \<open>Lexer\<close>

record Lexer =
  source :: string
  position :: Position

definition Lexer_new :: "string \<Rightarrow> Lexer" where
  "Lexer_new src = \<lparr> source = src, position = \<lparr> index = 0, line = 0, column = 0 \<rparr> \<rparr>"

text \<open>
  \<^verbatim>\<open>charAt\<close> and \<^verbatim>\<open>substr(start, 1)\<close> give the empty string outside the text;
  \<^verbatim>\<open>substring(a, b)\<close> swaps its arguments when \<open>a > b\<close> and stops at the end of the
  text.
\<close>

definition charAt :: "string \<Rightarrow> nat \<Rightarrow> string" where
  "charAt s i = (if i < length s then [s ! i] else [])"

definition substring :: "string \<Rightarrow> nat \<Rightarrow> nat \<Rightarrow> string" where
  "substring s a b = take (max a b - min a b) (drop (min a b) s)"

definition ended :: "Lexer \<Rightarrow> bool" where
  "ended lx = (index (position lx) \<ge> length (source lx))"

text \<open>The method \<^verbatim>\<open>char()\<close>.\<close>

definition currentChar :: "Lexer \<Rightarrow> string" where
  "currentChar lx = charAt (source lx) (index (position lx))"

definition peek :: "Lexer \<Rightarrow> string" where
  "peek lx = take 1 (drop (index (position lx) + 1) (source lx))"

text \<open>
  \<^verbatim>\<open>advance()\<close> moves to the next index and returns the unit it finds there; the line
  is counted up when that unit is a line feed.
\<close>

definition advance :: "Lexer \<Rightarrow> string \<times> Lexer" where
  "advance lx =
     (let p = position lx;
          result = charAt (source lx) (index p + 1);
          p1 = p\<lparr> index := index p + 1, column := column p + 1 \<rparr>;
          p2 = (if result = [CHR 0x0A] then p1\<lparr> line := line p1 + 1, column := 0 \<rparr> else p1)
      in (result, lx\<lparr> position := p2 \<rparr>))"

text \<open>
  The character classes of the regular expressions. A match of a class against a string is
  \<open>list_ex\<close>; the strings tested have at most one unit.
\<close>

definition isSpaceOrTab :: "char \<Rightarrow> bool" where
  "isSpaceOrTab c = (c = CHR '' '' \<or> c = CHR 0x09)"

definition isLineFeed :: "char \<Rightarrow> bool" where
  "isLineFeed c = (c = CHR 0x0A)"

definition isDelimiterChar :: "char \<Rightarrow> bool" where
  "isDelimiterChar c = (c \<in> set ''(){}[],:='')"

definition isDigit :: "char \<Rightarrow> bool" where
  "isDigit c = (c \<in> set ''0123456789'')"

definition isSign :: "char \<Rightarrow> bool" where
  "isSign c = (c = CHR ''+'' \<or> c = CHR ''-'')"

definition isIdentifierStart :: "char \<Rightarrow> bool" where
  "isIdentifierStart c =
     (c \<in> set ''abcdefghijklmnopqrstuvwxyzABCDEFGHIJKLMNOPQRSTUVWXYZ_.$#@'')"

definition isIdentifierPart :: "char \<Rightarrow> bool" where
  "isIdentifierPart c = (isIdentifierStart c \<or> isDigit c)"

definition textSince :: "Lexer \<Rightarrow> Position \<Rightarrow> string" where
  "textSince lx start = substring (source lx) (index start) (index (position lx))"

definition createToken :: "Lexer \<Rightarrow> TokenType \<Rightarrow> Position \<Rightarrow> string \<Rightarrow> Token" where
  "createToken lx ttype start v =
     \<lparr> tok_type = ttype, tok_start = start, tok_end = position lx,
       tok_text = textSince lx start, tok_value = v \<rparr>"

text \<open>
  \<^verbatim>\<open>skipWhile\<close>: the loop stops at the end of the text, where \<^verbatim>\<open>char()\<close> is empty
  and matches nothing.
\<close>

function skipWhileLoop :: "(char \<Rightarrow> bool) \<Rightarrow> Lexer \<Rightarrow> Lexer" where
  "skipWhileLoop regExp lx =
     (if list_ex regExp (currentChar lx) then skipWhileLoop regExp (snd (advance lx)) else lx)"
  by pat_completeness auto
termination
  by (relation "measure (\<lambda>(regExp, lx). length (source lx) - index (position lx))")
    (auto simp add: currentChar_def charAt_def advance_def Let_def split: if_splits)

declare skipWhileLoop.simps [simp del]

definition skipWhile :: "(char \<Rightarrow> bool) \<Rightarrow> Lexer \<Rightarrow> string \<times> Lexer" where
  "skipWhile regExp lx =
     (let lx1 = skipWhileLoop regExp lx in (textSince lx1 (position lx), lx1))"

text \<open>
  \<^verbatim>\<open>skipUntil\<close>: the loop goes on while \<^verbatim>\<open>char()\<close> does not match. At the end of
  the text \<^verbatim>\<open>char()\<close> is empty and does not match, so the loop may never return:
  \<open>None\<close> is that outcome.
\<close>

partial_function (option) skipUntilLoop :: "(char \<Rightarrow> bool) \<Rightarrow> Lexer \<Rightarrow> Lexer option" where
  "skipUntilLoop regExp lx =
     (if list_ex regExp (currentChar lx) then Some lx
      else skipUntilLoop regExp (snd (advance lx)))"

declare skipUntilLoop.simps [code]

definition skipUntil :: "(char \<Rightarrow> bool) \<Rightarrow> Lexer \<Rightarrow> (string \<times> Lexer) option" where
  "skipUntil regExp lx =
     (case skipUntilLoop regExp lx of
        None \<Rightarrow> None
      | Some lx1 \<Rightarrow> Some (textSince lx1 (position lx), lx1))"

text \<open>
  \<^verbatim>\<open>valueFromHexChar\<close>, on the string that \<^verbatim>\<open>advance()\<close> returned; \<open>None\<close> is
  \<^verbatim>\<open>undefined\<close>. The letters count from zero, as in the source.
\<close>

definition valueFromHexChar :: "string \<Rightarrow> nat option" where
  "valueFromHexChar s =
     (case s of
        [] \<Rightarrow> None
      | c # _ \<Rightarrow>
          (let code = (of_char c :: nat)
           in if 48 \<le> code \<and> code \<le> 57 then Some (code - 48)
              else if 97 \<le> code \<and> code \<le> 102 then Some (code - 97)
              else if 65 \<le> code \<and> code \<le> 70 then Some (code - 65)
              else None))"

text \<open>The four digits of a \<^verbatim>\<open>\u\<close> escape: the loop stops at the first unit that is no digit, after reading it.\<close>

fun unicodeEscape :: "nat \<Rightarrow> nat \<Rightarrow> Lexer \<Rightarrow> nat \<times> Lexer" where
  "unicodeEscape 0 escapedValue lx = (escapedValue, lx)"
| "unicodeEscape (Suc n) escapedValue lx =
     (case valueFromHexChar (fst (advance lx)) of
        None \<Rightarrow> (escapedValue, snd (advance lx))
      | Some charValue \<Rightarrow> unicodeEscape n (escapedValue * 16 + charValue) (snd (advance lx)))"

text \<open>\<^verbatim>\<open>Lexer.escapedCharacters\<close>.\<close>

definition escapedCharacters :: "string \<rightharpoonup> string" where
  "escapedCharacters =
     [[CHR 0x5C] \<mapsto> [CHR 0x5C], [CHR 0x22] \<mapsto> [CHR 0x22], ''b'' \<mapsto> [CHR 0x08],
      ''f'' \<mapsto> [CHR 0x0C], ''n'' \<mapsto> [CHR 0x0A], ''r'' \<mapsto> [CHR 0x0D], ''t'' \<mapsto> [CHR 0x09]]"

text \<open>
  \<^verbatim>\<open>String.fromCharCode\<close> of the value of a \<^verbatim>\<open>\u\<close> escape. The model's alphabet has
  256 units, so the value is taken modulo 256 by \<open>char_of\<close>; this touches the \<open>value\<close> of a
  string token only, never its \<open>text\<close> or its \<open>range\<close>.
\<close>

definition fromCharCode :: "nat \<Rightarrow> string" where
  "fromCharCode n = [char_of n]"

subsection \<open>What the lexer consumes\<close>

text \<open>
  \<^verbatim>\<open>getTokens\<close> is a generator. The model returns, in order, what each pass of its loop
  consumed: a token it yields, or a span of the text that it passes over without a yield
  (whitespace, a comment with its line feed, a line break, or a string literal that has no
  closing quote before the end of the text, for which it yields nothing). The spans are
  \<^verbatim>\<open>textSince\<close> the position where the pass began. The yielded tokens are the tokens
  of the generator; \<open>None\<close> is a call of \<^verbatim>\<open>next()\<close> that does not return.
\<close>

datatype Skipped = Whitespace | CommentSpan | LineBreak | UnterminatedString

datatype Segment = Yielded Token | Consumed Skipped string

text \<open>The loop over spaces and tabs; \<open>True\<close> when it leaves the generator by \<^verbatim>\<open>return\<close>.\<close>

function skipWhitespace :: "Lexer \<Rightarrow> bool \<times> Lexer" where
  "skipWhitespace lx =
     (if list_ex isSpaceOrTab (currentChar lx)
      then (if fst (advance lx) = [] then (True, snd (advance lx))
            else skipWhitespace (snd (advance lx)))
      else (False, lx))"
  by pat_completeness auto
termination
  by (relation "measure (\<lambda>lx. length (source lx) - index (position lx))")
    (auto simp add: currentChar_def charAt_def advance_def Let_def split: if_splits)

declare skipWhitespace.simps [simp del]

lemma source_advance [simp]: "source (snd (advance lx)) = source lx"
  by (simp add: advance_def Let_def)

lemma index_advance [simp]: "index (position (snd (advance lx))) = index (position lx) + 1"
  by (simp add: advance_def Let_def)

lemma unicodeEscape_source [simp]: "source (snd (unicodeEscape n v lx)) = source lx"
  by (induction n v lx rule: unicodeEscape.induct) (simp_all split: option.splits)

lemma unicodeEscape_index: "index (position lx) \<le> index (position (snd (unicodeEscape n v lx)))"
proof (induction n v lx rule: unicodeEscape.induct)
  case (1 escapedValue lx)
  show ?case by simp
next
  case (2 n escapedValue lx)
  show ?case
  proof (cases "valueFromHexChar (fst (advance lx))")
    case None
    then show ?thesis by simp
  next
    case (Some charValue)
    with "2.IH" [OF Some] show ?thesis by simp
  qed
qed

text \<open>
  The loop of the string branch, \<^verbatim>\<open>while (!done && !this.ended())\<close>, with the units
  pushed to \<open>value\<close> so far. It returns the token it yields, if any.
\<close>

function stringLoop :: "Lexer \<Rightarrow> Position \<Rightarrow> string \<Rightarrow> Token option \<times> Lexer" where
  "stringLoop lx start v =
     (if ended lx then (None, lx)
      else if fst (advance lx) = [CHR 0x22]
      then (Some (createToken (snd (advance (snd (advance lx)))) TString start v),
            snd (advance (snd (advance lx))))
      else if fst (advance lx) = [CHR 0x5C]
      then (if fst (advance (snd (advance lx))) = ''u''
            then stringLoop (snd (unicodeEscape 4 0 (snd (advance (snd (advance lx)))))) start
                   (v @ fromCharCode (fst (unicodeEscape 4 0 (snd (advance (snd (advance lx)))))))
            else (case escapedCharacters (fst (advance (snd (advance lx)))) of
                    Some escaped \<Rightarrow> stringLoop (snd (advance (snd (advance lx)))) start (v @ escaped)
                  | None \<Rightarrow>
                      stringLoop (snd (advance (snd (advance lx)))) start
                        (v @ fst (advance (snd (advance lx))))))
      else stringLoop (snd (advance lx)) start (v @ fst (advance lx)))"
  by pat_completeness auto
termination
proof (relation "measure (\<lambda>(lx, start, v). length (source lx) - index (position lx))",
    goal_cases)
  case (2 lx start v)
  then show ?case
    using unicodeEscape_index [of "snd (advance (snd (advance lx)))" 4 0]
    by (simp add: ended_def)
qed (simp_all add: ended_def)

declare stringLoop.simps [simp del]


subsection \<open>Every loop of the lexer moves forward\<close>

lemma skipWhileLoop_source [simp]: "source (skipWhileLoop P lx) = source lx"
  by (induction P lx rule: skipWhileLoop.induct) (subst skipWhileLoop.simps, simp)

lemma skipWhileLoop_index: "index (position lx) \<le> index (position (skipWhileLoop P lx))"
proof (induction P lx rule: skipWhileLoop.induct)
  case (1 regExp lx)
  then show ?case
    by (subst skipWhileLoop.simps) (auto simp add: le_Suc_eq)
qed

lemma skipWhileLoop_progress:
  "list_ex P (currentChar lx) \<Longrightarrow> index (position lx) < index (position (skipWhileLoop P lx))"
  using skipWhileLoop_index [of "snd (advance lx)" P]
  by (subst skipWhileLoop.simps) simp

lemma skipUntilLoop_source: "skipUntilLoop P lx = Some lx' \<Longrightarrow> source lx' = source lx"
proof (induction rule: skipUntilLoop.raw_induct [rotated 1, consumes 1])
  case (1 f P lx lx')
  then show ?case by (auto split: if_splits)
qed

lemma skipUntilLoop_index:
  "skipUntilLoop P lx = Some lx' \<Longrightarrow> index (position lx) \<le> index (position lx')"
proof (induction rule: skipUntilLoop.raw_induct [rotated 1, consumes 1])
  case (1 f P lx lx')
  then show ?case by (fastforce split: if_splits)
qed

lemma skipUntilLoop_found:
  "skipUntilLoop P lx = Some lx' \<Longrightarrow> list_ex P (drop (index (position lx)) (source lx))"
proof (induction rule: skipUntilLoop.raw_induct [rotated 1, consumes 1])
  case (1 f P lx lx')
  show ?case
  proof (cases "list_ex P (currentChar lx)")
    case True
    then show ?thesis
      by (auto simp add: currentChar_def charAt_def Cons_nth_drop_Suc [symmetric] split: if_splits)
  next
    case False
    with 1(2) have "f P (snd (advance lx)) = Some lx'"
      by simp
    from 1(1) [OF this] have "list_ex P (tl (drop (index (position lx)) (source lx)))"
      by (simp add: drop_Suc tl_drop)
    then show ?thesis
      by (cases "drop (index (position lx)) (source lx)") auto
  qed
qed

lemma skipWhitespace_source [simp]: "source (snd (skipWhitespace lx)) = source lx"
  by (induction lx rule: skipWhitespace.induct) (subst skipWhitespace.simps, simp)

lemma skipWhitespace_index: "index (position lx) \<le> index (position (snd (skipWhitespace lx)))"
proof (induction lx rule: skipWhitespace.induct)
  case (1 lx)
  then show ?case
    by (subst skipWhitespace.simps) (auto simp add: le_Suc_eq)
qed

lemma skipWhitespace_not_ended:
  "\<not> ended lx \<Longrightarrow> \<not> fst (skipWhitespace lx) \<Longrightarrow> \<not> ended (snd (skipWhitespace lx))"
proof (induction lx rule: skipWhitespace.induct)
  case (1 lx)
  show ?case
  proof (cases "list_ex isSpaceOrTab (currentChar lx)")
    case False
    with "1.prems" show ?thesis
      by (subst skipWhitespace.simps) simp
  next
    case True
    from "1.prems"(2) True have more: "fst (advance lx) \<noteq> []"
      by (subst (asm) skipWhitespace.simps) (auto split: if_splits)
    then have "\<not> ended (snd (advance lx))"
      by (auto simp add: advance_def Let_def ended_def charAt_def split: if_splits)
    moreover from "1.prems"(2) True more have "\<not> fst (skipWhitespace (snd (advance lx)))"
      by (subst (asm) skipWhitespace.simps) simp
    ultimately have "\<not> ended (snd (skipWhitespace (snd (advance lx))))"
      using "1.IH" [OF True more] by simp
    with True more show ?thesis
      by (subst skipWhitespace.simps) simp
  qed
qed

lemma skipWhitespace_returned:
  "fst (skipWhitespace lx) \<Longrightarrow> ended (snd (skipWhitespace lx))"
proof (induction lx rule: skipWhitespace.induct)
  case (1 lx)
  show ?case
  proof (cases "list_ex isSpaceOrTab (currentChar lx)")
    case False
    with "1.prems" show ?thesis
      by (subst (asm) skipWhitespace.simps) simp
  next
    case True
    show ?thesis
    proof (cases "fst (advance lx) = []")
      case True
      then have "ended (snd (advance lx))"
        by (auto simp add: advance_def Let_def ended_def charAt_def split: if_splits)
      with True \<open>list_ex isSpaceOrTab (currentChar lx)\<close> show ?thesis
        by (subst skipWhitespace.simps) simp
    next
      case False
      with "1.prems" True have "fst (skipWhitespace (snd (advance lx)))"
        by (subst (asm) skipWhitespace.simps) simp
      with "1.IH" [OF True False] True False show ?thesis
        by (subst skipWhitespace.simps) simp
    qed
  qed
qed

lemma stringLoop_source [simp]: "source (snd (stringLoop lx start v)) = source lx"
proof (induction lx start v rule: stringLoop.induct)
  case (1 lx start v)
  then show ?case
    by (subst stringLoop.simps) (simp split: option.splits)
qed

lemma stringLoop_index:
  "index (position lx) \<le> index (position (snd (stringLoop lx start v)))"
proof (induction lx start v rule: stringLoop.induct)
  case (1 lx start v)
  note escape = unicodeEscape_index [of "snd (advance (snd (advance lx)))" 4 0]
  show ?case
    using 1 escape
    by (subst stringLoop.simps) (auto split: option.splits simp add: le_Suc_eq)
qed

subsection \<open>The branches of one pass\<close>

text \<open>
  One pass of the loop of \<^verbatim>\<open>getTokens\<close>, after the spaces and tabs, is a chain of
  \<^verbatim>\<open>if\<close>s on the current unit. Each branch is a definition here; \<open>start\<close> is the
  position where the pass began.
\<close>

definition commentBranch :: "Lexer \<Rightarrow> (Segment list \<times> Lexer) option" where
  "commentBranch lx =
     (let start = position lx;
          lx2 = snd (advance (snd (advance lx)));
          tokenType = (if currentChar lx2 = ''/'' then TDocumentationComment else TComment);
          lx3 = (if tokenType = TDocumentationComment then snd (advance lx2) else lx2)
      in case skipUntil isLineFeed lx3 of
           None \<Rightarrow> None
         | Some skipped \<Rightarrow>
             Some ([Consumed CommentSpan (textSince (snd (advance (snd skipped))) start)],
                   snd (advance (snd skipped))))"

definition lineBreakBranch :: "Lexer \<Rightarrow> Segment list \<times> Lexer" where
  "lineBreakBranch lx =
     (let start = position lx;
          lx1 = (if currentChar lx = [CHR 0x0D] then snd (advance lx) else lx);
          lx2 = snd (advance lx1)
      in ([Consumed LineBreak (textSince lx2 start)], lx2))"

definition delimiterBranch :: "Lexer \<Rightarrow> Segment list \<times> Lexer" where
  "delimiterBranch lx =
     (let start = position lx; v = currentChar lx; lx1 = snd (advance lx)
      in ([Yielded (createToken lx1 TDelimiter start v)], lx1))"

definition stringBranch :: "Lexer \<Rightarrow> Segment list \<times> Lexer" where
  "stringBranch lx =
     (let start = position lx; r = stringLoop lx start []
      in case fst r of
           Some token \<Rightarrow> ([Yielded token], snd r)
         | None \<Rightarrow> ([Consumed UnterminatedString (textSince (snd r) start)], snd r))"

text \<open>
  The number branch: the optional sign and the digits, then the fraction, then the
  exponent (sign, digits), each with the lexer after it.
\<close>

definition numberInteger :: "Lexer \<Rightarrow> string \<times> Lexer" where
  "numberInteger lx =
     (let negated = (currentChar lx = ''-'');
          lx1 = (if negated then snd (advance lx) else lx)
      in skipWhile isDigit lx1)"

definition numberFraction :: "Lexer \<Rightarrow> string \<times> Lexer" where
  "numberFraction lx =
     (if currentChar lx = ''.'' \<and> list_ex isDigit (peek lx)
      then skipWhile isDigit (snd (advance lx)) else ([], lx))"

definition numberExponent :: "Lexer \<Rightarrow> string \<times> string \<times> Lexer" where
  "numberExponent lx =
     (if currentChar lx = ''e'' \<and> (list_ex isSign (peek lx) \<or> list_ex isDigit (peek lx))
      then (let lx1 = snd (advance lx);
                hasSign = list_ex isSign (currentChar lx1);
                exponentSign = (if hasSign then currentChar lx1 else []);
                lx2 = (if hasSign then snd (advance lx1) else lx1);
                exponent = skipWhile isDigit lx2
            in (exponentSign, fst exponent, snd exponent))
      else ([], [], lx))"

definition numberBranch :: "Lexer \<Rightarrow> Segment list \<times> Lexer" where
  "numberBranch lx =
     (let start = position lx;
          v = numberInteger lx;
          fraction = numberFraction (snd v);
          exponent = numberExponent (snd fraction);
          exponentSign = fst exponent;
          lx1 = snd (snd exponent);
          number = fst v @ (if fst fraction \<noteq> [] then ''.'' @ fst fraction else [])
                   @ (if fst (snd exponent) \<noteq> []
                      then ''e'' @ exponentSign @ fst (snd exponent) else [])
      in ([Yielded (createToken lx1 TNumber start number)], lx1))"

definition identifierBranch :: "Lexer \<Rightarrow> Segment list \<times> Lexer" where
  "identifierBranch lx =
     (let start = position lx; identifier = skipWhile isIdentifierPart lx
      in ([Yielded (createToken (snd identifier) TIdentifier start (fst identifier))],
          snd identifier))"

definition errorBranch :: "Lexer \<Rightarrow> Segment list \<times> Lexer" where
  "errorBranch lx =
     (let start = position lx; v = currentChar lx; lx1 = snd (advance lx)
      in ([Yielded (createToken lx1 TError start
                      (''Unknown token: '' @ v @ '', '' @ currentChar lx1))], lx1))"

definition scanToken :: "Lexer \<Rightarrow> (Segment list \<times> Lexer) option" where
  "scanToken lx =
     (if currentChar lx = ''/'' \<and> peek lx = ''/'' then commentBranch lx
      else if currentChar lx = [CHR 0x0A] \<or> currentChar lx = [CHR 0x0D] \<and> peek lx = [CHR 0x0A]
      then Some (lineBreakBranch lx)
      else if list_ex isDelimiterChar (currentChar lx) then Some (delimiterBranch lx)
      else if currentChar lx = [CHR 0x22] then Some (stringBranch lx)
      else if currentChar lx = ''-'' \<and> list_ex isDigit (peek lx) \<or> list_ex isDigit (currentChar lx)
      then Some (numberBranch lx)
      else if list_ex isIdentifierStart (currentChar lx) then Some (identifierBranch lx)
      else Some (errorBranch lx))"

text \<open>The text of a segment: of a token its \<open>text\<close>, of a span the span.\<close>

fun segmentText :: "Segment \<Rightarrow> string" where
  "segmentText (Yielded token) = tok_text token"
| "segmentText (Consumed kind span) = span"

lemma stringLoop_token:
  "fst (stringLoop lx start v) = Some token \<Longrightarrow>
   tok_text token = textSince (snd (stringLoop lx start v)) start"
proof (induction lx start v rule: stringLoop.induct)
  case (1 lx start v)
  show ?case
    using "1.prems" "1.IH"
    by (subst stringLoop.simps, subst (asm) stringLoop.simps)
      (auto simp add: createToken_def split: if_splits option.splits)
qed

lemma stringLoop_after:
  "i < index (position lx) \<Longrightarrow> i < index (position (snd (stringLoop lx start v)))"
  using stringLoop_index [of lx start v] by simp

lemma unicodeEscape_after:
  "i < index (position lx) \<Longrightarrow> i < index (position (snd (unicodeEscape n v lx)))"
  using unicodeEscape_index [of lx n v] by simp

lemma stringLoop_progress:
  "\<not> ended lx \<Longrightarrow> index (position lx) < index (position (snd (stringLoop lx start v)))"
  by (subst stringLoop.simps)
    (simp add: stringLoop_after unicodeEscape_after split: option.splits)

lemma skipWhile_source [simp]: "source (snd (skipWhile P lx)) = source lx"
  by (simp add: skipWhile_def Let_def)

lemma skipWhile_index: "index (position lx) \<le> index (position (snd (skipWhile P lx)))"
  by (simp add: skipWhile_def Let_def skipWhileLoop_index)

lemma skipWhile_progress:
  "list_ex P (currentChar lx) \<Longrightarrow> index (position lx) < index (position (snd (skipWhile P lx)))"
  by (simp add: skipWhile_def Let_def skipWhileLoop_progress)

lemma numberInteger_source [simp]: "source (snd (numberInteger lx)) = source lx"
  by (simp add: numberInteger_def Let_def)

lemma numberFraction_source [simp]: "source (snd (numberFraction lx)) = source lx"
  by (simp add: numberFraction_def)

lemma numberExponent_source [simp]: "source (snd (snd (numberExponent lx))) = source lx"
  by (simp add: numberExponent_def Let_def)

lemma numberInteger_progress:
  assumes "currentChar lx = ''-'' \<and> list_ex isDigit (peek lx) \<or> list_ex isDigit (currentChar lx)"
  shows "index (position lx) < index (position (snd (numberInteger lx)))"
proof (cases "currentChar lx = ''-''")
  case True
  then show ?thesis
    using skipWhile_index [of "snd (advance lx)" isDigit]
    by (simp add: numberInteger_def Let_def)
next
  case False
  with assms show ?thesis
    by (simp add: numberInteger_def Let_def skipWhile_progress)
qed

lemma numberFraction_index:
  "index (position lx) \<le> index (position (snd (numberFraction lx)))"
  using skipWhile_index [of "snd (advance lx)" isDigit]
  by (simp add: numberFraction_def)

lemma numberExponent_index:
  "index (position lx) \<le> index (position (snd (snd (numberExponent lx))))"
  using skipWhile_index [of "snd (advance lx)" isDigit]
    skipWhile_index [of "snd (advance (snd (advance lx)))" isDigit]
  by (simp add: numberExponent_def Let_def)

lemma numberBranch_source [simp]: "source (snd (numberBranch lx)) = source lx"
  by (simp add: numberBranch_def Let_def)

lemma numberBranch_progress:
  assumes "currentChar lx = ''-'' \<and> list_ex isDigit (peek lx) \<or> list_ex isDigit (currentChar lx)"
  shows "index (position lx) < index (position (snd (numberBranch lx)))"
proof -
  note numberInteger_progress [OF assms]
  also note numberFraction_index [of "snd (numberInteger lx)"]
  also note numberExponent_index [of "snd (numberFraction (snd (numberInteger lx)))"]
  finally show ?thesis
    by (simp add: numberBranch_def Let_def)
qed

lemma scanToken_source:
  "scanToken lx = Some r \<Longrightarrow> source (snd r) = source lx"
  by (auto simp add: scanToken_def commentBranch_def lineBreakBranch_def delimiterBranch_def
      stringBranch_def identifierBranch_def errorBranch_def skipUntil_def Let_def
      skipUntilLoop_source split: if_splits option.splits)

lemma scanToken_progress:
  assumes "scanToken lx = Some r" and "\<not> ended lx"
  shows "index (position lx) < index (position (snd r))"
proof -
  have comment: "index (position lx) < index (position (snd r))" if "commentBranch lx = Some r"
  proof -
    from that obtain lx3 skipped where "skipUntil isLineFeed lx3 = Some skipped"
      and lx3: "index (position lx) < index (position lx3)"
      and r: "r = ([Consumed CommentSpan (textSince (snd (advance (snd skipped))) (position lx))],
                   snd (advance (snd skipped)))"
      by (auto simp add: commentBranch_def Let_def split: option.splits if_splits)
    then have "index (position lx3) \<le> index (position (snd skipped))"
      by (auto simp add: skipUntil_def skipUntilLoop_index split: option.splits)
    with lx3 r show ?thesis by simp
  qed
  show ?thesis
    using assms comment numberBranch_progress [of lx] stringLoop_progress [of lx "position lx" "[]"]
      skipWhile_progress [of isIdentifierPart lx]
    by (auto simp add: scanToken_def lineBreakBranch_def delimiterBranch_def
        stringBranch_def identifierBranch_def errorBranch_def Let_def isIdentifierPart_def
        list_ex_iff split: if_splits option.splits)
qed

subsection \<open>The loop of getTokens\<close>

function scanLoop :: "Lexer \<Rightarrow> Segment list option" where
  "scanLoop lx =
     (if ended lx then Some []
      else if fst (skipWhitespace lx)
      then Some [Consumed Whitespace (textSince (snd (skipWhitespace lx)) (position lx))]
      else (case scanToken (snd (skipWhitespace lx)) of
              None \<Rightarrow> None
            | Some r \<Rightarrow>
                (case scanLoop (snd r) of
                   None \<Rightarrow> None
                 | Some rest \<Rightarrow>
                     Some (Consumed Whitespace (textSince (snd (skipWhitespace lx)) (position lx))
                           # fst r @ rest))))"
  by pat_completeness auto
termination
proof (relation "measure (\<lambda>lx. length (source lx) - index (position lx))", goal_cases)
  case 1
  show ?case by simp
next
  case (2 lx r)
  have "index (position lx) \<le> index (position (snd (skipWhitespace lx)))"
    by (rule skipWhitespace_index)
  also have "\<dots> < index (position (snd r))"
    using 2 by (intro scanToken_progress skipWhitespace_not_ended) simp_all
  finally have "index (position lx) < index (position (snd r))" .
  moreover have "source (snd r) = source lx"
    using scanToken_source [OF 2(3)] by simp
  ultimately show ?case
    using 2(1) by (simp add: ended_def)
qed

declare scanLoop.simps [simp del]

definition scan :: "string \<Rightarrow> Segment list option" where
  "scan src = scanLoop (Lexer_new src)"

text \<open>The tokens that the generator yields.\<close>

fun yielded :: "Segment list \<Rightarrow> Token list" where
  "yielded [] = []"
| "yielded (Yielded token # segments) = token # yielded segments"
| "yielded (Consumed kind span # segments) = yielded segments"

definition getTokens :: "string \<Rightarrow> Token list option" where
  "getTokens src = map_option yielded (scan src)"

text \<open>
  The text of a segment when only the spans of whitespace, comments and line breaks are
  counted beside the tokens, and the segments that are a string literal without its closing
  quote.
\<close>

fun listedText :: "Segment \<Rightarrow> string" where
  "listedText (Yielded token) = tok_text token"
| "listedText (Consumed UnterminatedString span) = []"
| "listedText (Consumed kind span) = span"

fun isUnterminated :: "Segment \<Rightarrow> bool" where
  "isUnterminated (Consumed UnterminatedString span) = True"
| "isUnterminated segment = False"

text \<open>
  The position of an index of a text with lines and columns counted from zero: the line is
  the number of line feeds before the index, the column the number of units since the last
  of them.
\<close>

definition exactPosition :: "string \<Rightarrow> nat \<Rightarrow> Position" where
  "exactPosition src i =
     \<lparr> index = i,
       line = length (filter isLineFeed (take i src)),
       column = length (takeWhile (\<lambda>c. \<not> isLineFeed c) (rev (take i src))) \<rparr>"

subsection \<open>What the segments of a text add up to\<close>

lemma substring_append_drop: "a \<le> b \<Longrightarrow> substring s a b @ drop b s = drop a s"
proof -
  assume "a \<le> b"
  then have "drop b s = drop (b - a) (drop a s)"
    by simp
  with \<open>a \<le> b\<close> show ?thesis
    by (simp add: substring_def min_absorb1 max_absorb2 del: drop_drop)
qed

lemma substring_to_end: "a \<le> b \<Longrightarrow> length s \<le> b \<Longrightarrow> substring s a b = drop a s"
  using substring_append_drop [of a b s] by simp

lemma scanToken_text:
  assumes "scanToken lx = Some r"
  shows "concat (map segmentText (fst r)) = textSince (snd r) (position lx)"
  using assms stringLoop_token [of lx "position lx" "[]"]
  by (auto simp add: scanToken_def commentBranch_def lineBreakBranch_def delimiterBranch_def
      stringBranch_def numberBranch_def identifierBranch_def errorBranch_def Let_def
      createToken_def split: if_splits option.splits)

lemma scanLoop_text:
  "scanLoop lx = Some segments \<Longrightarrow>
   concat (map segmentText segments) = drop (index (position lx)) (source lx)"
proof (induction lx arbitrary: segments rule: scanLoop.induct)
  case (1 lx)
  let ?w = "snd (skipWhitespace lx)"
  have w: "index (position lx) \<le> index (position ?w)"
    by (rule skipWhitespace_index)
  show ?case
  proof (cases "ended lx")
    case True
    with "1.prems" show ?thesis
      by (subst (asm) scanLoop.simps) (auto simp add: ended_def)
  next
    case False
    note live = this
    show ?thesis
    proof (cases "fst (skipWhitespace lx)")
      case True
      then have "ended ?w"
        by (rule skipWhitespace_returned)
      then have "textSince ?w (position lx) = drop (index (position lx)) (source lx)"
        using w by (simp add: textSince_def ended_def substring_to_end)
      with "1.prems" live True show ?thesis
        by (subst (asm) scanLoop.simps) auto
    next
      case False
      with "1.prems" live obtain r rest where r: "scanToken ?w = Some r"
        and rest: "scanLoop (snd r) = Some rest"
        and segments: "segments = Consumed Whitespace (textSince ?w (position lx)) # fst r @ rest"
        by (subst (asm) scanLoop.simps) (auto split: option.splits)
      have src: "source (snd r) = source lx"
        using scanToken_source [OF r] by simp
      have "\<not> ended ?w"
        using live False by (rule skipWhitespace_not_ended)
      then have step: "index (position ?w) \<le> index (position (snd r))"
        using scanToken_progress [OF r] by simp
      have "concat (map segmentText rest) = drop (index (position (snd r))) (source lx)"
        using "1.IH" [OF live False r rest] src by simp
      moreover have "concat (map segmentText (fst r))
          = substring (source lx) (index (position ?w)) (index (position (snd r)))"
        using scanToken_text [OF r] src by (simp add: textSince_def)
      ultimately have "concat (map segmentText (fst r @ rest)) = drop (index (position ?w)) (source lx)"
        using step by (simp add: substring_append_drop)
      then show ?thesis
        using w by (simp add: segments textSince_def substring_append_drop)
    qed
  qed
qed

lemma listedText_eq: "\<not> isUnterminated seg \<Longrightarrow> listedText seg = segmentText seg"
  by (cases seg rule: listedText.cases) simp_all

lemma listedText_concat:
  "\<not> list_ex isUnterminated segments \<Longrightarrow>
   concat (map listedText segments) = concat (map segmentText segments)"
  by (induction segments) (simp_all add: listedText_eq)

lemma skipUntilLoop_None:
  "\<not> list_ex P (drop (index (position lx)) (source lx)) \<Longrightarrow> skipUntilLoop P lx = None"
  using skipUntilLoop_found [of P lx] by (cases "skipUntilLoop P lx") auto

section \<open>Nodes\<close>

text \<open>
  Modelled from the spec: \<^verbatim>\<open>Node.ts\<close> is not among the sources. A node is what the
  parser builds: an object with an optional \<^verbatim>\<open>key\<close> (itself \<^verbatim>\<open>{value, token}\<close>),
  an optional \<^verbatim>\<open>value\<close> and an optional \<^verbatim>\<open>token\<close>. A value is undefined, a
  string, a number (kept as the numeral text that \<^verbatim>\<open>Number(...)\<close> was applied to), an
  object (its own properties in insertion order) or an array, whose items may be undefined.
\<close>

record KeyNode =
  key_value :: string
  key_token :: Token

datatype NodeValue =
    Undefined
  | Str string
  | Num string
  | Obj "(string \<times> Node) list"
  | Arr "Node option list"
and Node =
    Node (node_key: "KeyNode option") (node_value: NodeValue) (node_token: "Token option")


section \<open>Exceptions\<close>

datatype error = TypeError | URIError

text \<open>
  A method that may throw returns \<open>Inl\<close> of the error. \<open>andThen\<close> is the next statement
  and \<open>forEach\<close> a \<^verbatim>\<open>for ... of\<close> loop over a list; both stop at the first error.
\<close>

definition andThen :: "error + 'a \<Rightarrow> ('a \<Rightarrow> error + 'b) \<Rightarrow> error + 'b" where
  "andThen r f = (case r of Inl e \<Rightarrow> Inl e | Inr x \<Rightarrow> f x)"

fun forEach :: "('a \<Rightarrow> 's \<Rightarrow> error + 's) \<Rightarrow> 'a list \<Rightarrow> 's \<Rightarrow> error + 's" where
  "forEach f [] s = Inr s"
| "forEach f (x # xs) s = andThen (f x s) (forEach f xs)"

lemma andThen_cong [fundef_cong]:
  assumes "r = r'" and "\<And>x. r' = Inr x \<Longrightarrow> f x = g x"
  shows "andThen r f = andThen r' g"
  using assms by (simp add: andThen_def split: sum.splits)

lemma forEach_cong [fundef_cong]:
  assumes "xs = ys" and "s = t" and "\<And>x s'. x \<in> set ys \<Longrightarrow> f x s' = g x s'"
  shows "forEach f xs s = forEach g ys t"
  using assms(3) unfolding assms(1,2)
proof (induction ys arbitrary: t)
  case Nil
  show ?case by simp
next
  case (Cons y ys)
  have "forEach f ys = forEach g ys"
    using Cons.IH Cons.prems by (intro ext) simp
  then show ?case
    using Cons.prems by simp
qed


section \<open>Identifier\<close>

record Identifier =
  id_namespace :: "string option"
  id_name :: string
  id_member :: "string option"

text \<open>JavaScript truthiness of a string that may be \<^verbatim>\<open>undefined\<close>.\<close>

definition truthy :: "string option \<Rightarrow> bool" where
  "truthy s = (case s of None \<Rightarrow> False | Some v \<Rightarrow> v \<noteq> [])"

text \<open>\<^verbatim>\<open>value.indexOf(c, from)\<close>; \<open>None\<close> is the result \<^verbatim>\<open>-1\<close>.\<close>

fun indexFrom :: "string \<Rightarrow> char \<Rightarrow> nat \<Rightarrow> nat option" where
  "indexFrom [] c i = None"
| "indexFrom (x # xs) c i = (if x = c then Some i else indexFrom xs c (Suc i))"

definition indexOf :: "string \<Rightarrow> char \<Rightarrow> nat \<Rightarrow> nat option" where
  "indexOf s c from = indexFrom (drop from s) c from"

text \<open>The constructor \<^verbatim>\<open>new Identifier(value)\<close>.\<close>

definition Identifier_new :: "string \<Rightarrow> Identifier" where
  "Identifier_new v =
     (let namespaceIndex = indexOf v (CHR ''#'') 0;
          afterNamespace = (case namespaceIndex of None \<Rightarrow> 0 | Some i \<Rightarrow> i + 1);
          memberIndex = indexOf v (CHR ''$'') afterNamespace
      in \<lparr> id_namespace = (case namespaceIndex of None \<Rightarrow> None | Some i \<Rightarrow> Some (take i v)),
           id_name = substring v afterNamespace
                       (case memberIndex of None \<Rightarrow> length v | Some m \<Rightarrow> m),
           id_member = (case memberIndex of None \<Rightarrow> None | Some m \<Rightarrow> Some (drop (m + 1) v)) \<rparr>)"

definition toRelative :: "Identifier \<Rightarrow> string" where
  "toRelative i =
     (if truthy (id_member i) then id_name i @ ''$'' @ the (id_member i) else id_name i)"

definition forMember :: "Identifier \<Rightarrow> string \<Rightarrow> Identifier" where
  "forMember i memberName =
     Identifier_new ((if truthy (id_namespace i) then the (id_namespace i) @ ''#'' else [])
                     @ id_name i @ ''$'' @ memberName)"

section \<open>References and messages\<close>

text \<open>
  Modelled from the spec: the enums \<^verbatim>\<open>ReferenceType\<close>, \<^verbatim>\<open>MessageType\<close> and
  \<^verbatim>\<open>Section\<close> are declared in files that are not among the sources; their members are
  the ones the spec lists and the code names.
\<close>

datatype ReferenceType = RShape | RUse | RApply | RTrait | RMember

datatype MessageType = MError | MWarning | MInformation | MHint

datatype Section = SControl | SMetadata | SShape

record Reference =
  ref_token :: Token
  ref_identifier :: Identifier
  ref_type :: ReferenceType

record Message =
  msg_type :: MessageType
  startIndex :: int
  endIndex :: int
  msg_text :: string

section \<open>ParsedDocument\<close>

text \<open>
  The dictionaries of a document are objects created by \<^verbatim>\<open>{}\<close>. A lookup
  \<^verbatim>\<open>map[key]\<close> finds an own property or, when there is none of that name, what the
  object inherits from \<^verbatim>\<open>Object.prototype\<close>: a function under eleven names and the
  prototype itself under \<^verbatim>\<open>__proto__\<close>. An inherited value is truthy, its element
  \<^verbatim>\<open>[0]\<close> is \<^verbatim>\<open>undefined\<close> and it has no method \<^verbatim>\<open>push\<close>. A dictionary is
  the map of its own properties, and \<open>getProperty\<close> is the lookup.
\<close>

definition inheritedNames :: "string list" where
  "inheritedNames =
     [''constructor'', ''__defineGetter__'', ''__defineSetter__'', ''hasOwnProperty'',
      ''__lookupGetter__'', ''__lookupSetter__'', ''isPrototypeOf'', ''propertyIsEnumerable'',
      ''toString'', ''valueOf'', ''__proto__'', ''toLocaleString'']"

datatype 'a Property = Missing | Inherited | Own 'a

definition getProperty :: "(string \<rightharpoonup> 'a) \<Rightarrow> string \<Rightarrow> 'a Property" where
  "getProperty m k =
     (case m k of
        Some v \<Rightarrow> Own v
      | None \<Rightarrow> if k \<in> set inheritedNames then Inherited else Missing)"

text \<open>
  The truthiness of \<^verbatim>\<open>map[key]\<close> in a dictionary whose own values are arrays or
  objects, which are truthy.
\<close>

definition isDefined :: "(string \<rightharpoonup> 'a) \<Rightarrow> string \<Rightarrow> bool" where
  "isDefined m k =
     (case getProperty m k of Missing \<Rightarrow> False | Inherited \<Rightarrow> True | Own v \<Rightarrow> True)"

record ParsedDocument =
  uri :: string
  sections :: "Section \<Rightarrow> Token option"
  metadata :: "string \<rightharpoonup> NodeValue"
  namespace :: "string option"
  controls :: "string \<rightharpoonup> NodeValue"
  relativeShapes :: "string \<rightharpoonup> string list"
  shapes :: "string \<rightharpoonup> Token list"
  references :: "Reference list"
  messages :: "Message list"
  parsedMessageCount :: nat

definition ParsedDocument_new :: "string \<Rightarrow> ParsedDocument" where
  "ParsedDocument_new u =
     \<lparr> uri = u, sections = (\<lambda>_. None), metadata = Map.empty, namespace = None,
       controls = Map.empty, relativeShapes = Map.empty, shapes = Map.empty,
       references = [], messages = [], parsedMessageCount = 0 \<rparr>"

text \<open>
  \<^verbatim>\<open>addMessage(text, { token, type, after })\<close>; an absent \<^verbatim>\<open>type\<close> is \<open>None\<close>, an
  absent \<^verbatim>\<open>after\<close> is \<open>False\<close>. The indices are JavaScript numbers, and
  \<^verbatim>\<open>end.index - 1\<close> is \<open>-1\<close> for a token that ends at index 0.
\<close>

definition addMessage ::
  "string \<Rightarrow> Token \<Rightarrow> MessageType option \<Rightarrow> bool \<Rightarrow> ParsedDocument \<Rightarrow> ParsedDocument" where
  "addMessage msg token mtype after doc =
     (let position =
            (if \<not> after \<and> tok_type token \<noteq> TEnd
             then (int (index (tok_start token)), int (index (tok_end token)))
             else (int (index (tok_end token)) - 1, int (index (tok_end token))))
      in doc\<lparr> messages := messages doc @
           [\<lparr> msg_type = (case mtype of None \<Rightarrow> MError | Some t \<Rightarrow> t),
              startIndex = fst position, endIndex = snd position, msg_text = msg \<rparr>] \<rparr>)"

definition enterSection :: "Section \<Rightarrow> Token \<Rightarrow> ParsedDocument \<Rightarrow> ParsedDocument" where
  "enterSection section token doc =
     (let doc1 = (if sections doc section = None
                  then doc\<lparr> sections := (sections doc)(section := Some token) \<rparr> else doc)
      in case section of
           SControl \<Rightarrow>
             (if sections doc1 SMetadata \<noteq> None \<or> sections doc1 SShape \<noteq> None
              then addMessage ''Control section has to be defined first.'' token None False doc1
              else doc1)
         | SMetadata \<Rightarrow>
             (if sections doc1 SShape \<noteq> None
              then addMessage ''Metadata must be defined before shapes.'' token None False doc1
              else doc1)
         | SShape \<Rightarrow> doc1)"

text \<open>
  \<^verbatim>\<open>compareReferences\<close>, and \<^verbatim>\<open>Array.prototype.sort\<close> with a comparator: the sort
  is stable, so it is the insertion of each element before the first one that is not smaller.
\<close>

definition compareReferences :: "Reference \<Rightarrow> Reference \<Rightarrow> int" where
  "compareReferences a b =
     (let aStart = tok_start (ref_token a); bStart = tok_start (ref_token b)
      in if int (line aStart) - int (line bStart) \<noteq> 0
         then int (line aStart) - int (line bStart)
         else int (column aStart) - int (column bStart))"

fun insertSorted :: "('a \<Rightarrow> 'a \<Rightarrow> int) \<Rightarrow> 'a \<Rightarrow> 'a list \<Rightarrow> 'a list" where
  "insertSorted cmp x [] = [x]"
| "insertSorted cmp x (y # ys) =
     (if cmp x y \<le> 0 then x # y # ys else y # insertSorted cmp x ys)"

definition sortArray :: "('a \<Rightarrow> 'a \<Rightarrow> int) \<Rightarrow> 'a list \<Rightarrow> 'a list" where
  "sortArray cmp xs = foldr (insertSorted cmp) xs []"

definition finishParsing :: "ParsedDocument \<Rightarrow> ParsedDocument" where
  "finishParsing doc =
     doc\<lparr> parsedMessageCount := length (messages doc),
          references := sortArray compareReferences (references doc) \<rparr>"

text \<open>
  \<^verbatim>\<open>resolveId\<close>. For a relative name that the dictionary only inherits,
  \<^verbatim>\<open>resolvedId\<close> is truthy and \<^verbatim>\<open>resolvedId[0]\<close> is \<^verbatim>\<open>undefined\<close>, as it is
  for an empty list (every list stored in \<open>relativeShapes\<close> is non-empty, see \<open>putItem\<close>).
  The result is used as a property name only, where \<^verbatim>\<open>undefined\<close> reads
  \<^verbatim>\<open>"undefined"\<close>.
\<close>

definition resolveId :: "ParsedDocument \<Rightarrow> Identifier \<Rightarrow> string" where
  "resolveId doc identifier =
     (let canonical =
            (case id_namespace identifier of
               Some ns \<Rightarrow> ns
             | None \<Rightarrow> (if truthy (namespace doc) then the (namespace doc) else ''smithy.api''))
            @ ''#'' @ id_name identifier
            @ (case id_member identifier of Some m \<Rightarrow> ''$'' @ m | None \<Rightarrow> [])
      in if id_namespace identifier = None
         then (case getProperty (relativeShapes doc) (toRelative identifier) of
                 Own (first # rest) \<Rightarrow> first
               | Own [] \<Rightarrow> ''undefined''
               | Inherited \<Rightarrow> ''undefined''
               | Missing \<Rightarrow> canonical)
         else canonical)"

text \<open>
  \<^verbatim>\<open>putItem\<close>. Under a name that the dictionary only inherits, \<^verbatim>\<open>map[key]\<close> is
  truthy and \<^verbatim>\<open>map[key].push\<close> is not a function: the call throws a TypeError. So does
  \<^verbatim>\<open>addShape\<close> for a shape of such a relative name, after it has added its message.
\<close>

definition putItem ::
  "(string \<rightharpoonup> 'a list) \<Rightarrow> string \<Rightarrow> 'a \<Rightarrow> error + (string \<rightharpoonup> 'a list)" where
  "putItem m k item =
     (case getProperty m k of
        Missing \<Rightarrow> Inr (m(k \<mapsto> [item]))
      | Own items \<Rightarrow> Inr (m(k \<mapsto> items @ [item]))
      | Inherited \<Rightarrow> Inl TypeError)"

definition addShape :: "Identifier \<Rightarrow> Token \<Rightarrow> ParsedDocument \<Rightarrow> error + ParsedDocument" where
  "addShape identifier token doc =
     (let resolvedId = resolveId doc identifier;
          relative = toRelative identifier;
          doc1 = (if isDefined (relativeShapes doc) relative
                  then addMessage ''Shape is already defined.'' token None False doc else doc)
      in andThen (putItem (shapes doc1) resolvedId token)
           (\<lambda>shapes1.
              andThen (putItem (relativeShapes doc1) relative resolvedId)
                (\<lambda>relativeShapes1.
                   Inr (doc1\<lparr> shapes := shapes1, relativeShapes := relativeShapes1 \<rparr>))))"

definition addReference ::
  "Identifier \<Rightarrow> Token \<Rightarrow> ReferenceType \<Rightarrow> ParsedDocument \<Rightarrow> ParsedDocument" where
  "addReference identifier token rtype doc =
     doc\<lparr> references := references doc @
          [\<lparr> ref_token = token, ref_identifier = identifier, ref_type = rtype \<rparr>] \<rparr>"

subsection \<open>Validation\<close>

definition validateNamespace :: "ParsedDocument \<Rightarrow> ParsedDocument" where
  "validateNamespace doc =
     (case sections doc SShape of
        Some shapeToken \<Rightarrow>
          (if \<not> truthy (namespace doc)
           then addMessage
                  (''Missing namespace declaration. Namespace 'smithy.api' from Smithy prelude will be used.'')
                  shapeToken (Some MWarning) False doc
           else doc)
      | None \<Rightarrow> doc)"

text \<open>\<^verbatim>\<open>Object.values(SimpleShapes)\<close>, in the order of the enum in \<^verbatim>\<open>schema.ts\<close>.\<close>

definition simpleShapeNames :: "string list" where
  "simpleShapeNames =
     [''blob'', ''boolean'', ''string'', ''byte'', ''short'', ''integer'', ''long'', ''float'',
      ''double'', ''bigInteger'', ''bigDecimal'', ''timestamp'', ''document'']"

text \<open>The keys of \<^verbatim>\<open>Prelude.shapes\<close> followed by the keys of \<^verbatim>\<open>Traits\<close>.\<close>

definition preludeShapeNames :: "string list" where
  "preludeShapeNames =
     [''String'', ''Blob'', ''BigInteger'', ''BigDecimal'', ''Timestamp'', ''Document'',
      ''Boolean'', ''PrimitiveBoolean'', ''Byte'', ''PrimitiveByte'', ''Short'',
      ''PrimitiveShort'', ''Integer'', ''PrimitiveInteger'', ''Long'', ''PrimitiveLong'',
      ''Float'', ''PrimitiveFloat'', ''Double'', ''PrimitiveDouble'']
     @ [''enum'', ''idRef'', ''length'', ''pattern'', ''private'', ''range'', ''required'',
        ''uniqueItems'', ''deprecated'', ''documentation'', ''examples'',
        ''externalDocumentation'', ''internal'', ''recommended'', ''sensitive'', ''since'',
        ''tags'', ''title'', ''unstable'', ''box'', ''error'', ''sparse'',
        ''protocolDefinition'', ''jsonName'', ''mediaType'', ''timestampFormat'',
        ''authDefinition'', ''httpBasicAuth'', ''httpDigestAuth'', ''httpBearerAuth'',
        ''httpApiKeyAuth'', ''optionalAuth'', ''auth'', ''idempotencyToken'', ''idempotent'',
        ''readonly'', ''retryable'', ''paginated'', ''httpChecksumRequired'', ''noReplace'',
        ''references'', ''resourceIdentifier'', ''streaming'', ''requiresLength'',
        ''eventHeader'', ''eventPayload'', ''http'', ''httpError'', ''httpHeader'',
        ''httpLabel'', ''httpPayload'', ''httpPrefixHeaders'', ''httpQuery'',
        ''httpQueryParams'', ''httpResponseCode'', ''cors'', ''xmlAttribute'',
        ''xmlFlattened'', ''xmlName'', ''xmlNamespace'', ''endpoint'', ''hostLabel'',
        ''suppress'']"

definition isKnownReference :: "Identifier \<Rightarrow> bool" where
  "isKnownReference identifier =
     (\<not> truthy (id_namespace identifier) \<and> \<not> truthy (id_member identifier)
      \<and> (id_name identifier \<in> set simpleShapeNames
           \<or> id_name identifier \<in> set preludeShapeNames))"

fun isExternalShape :: "ParsedDocument \<Rightarrow> Identifier \<Rightarrow> ParsedDocument list \<Rightarrow> bool" where
  "isExternalShape this identifier [] = False"
| "isExternalShape this identifier (parsedDocument # parsedFiles) =
     (if (truthy (id_namespace identifier)
            \<and> namespace parsedDocument = id_namespace identifier
          \<or> \<not> truthy (id_namespace identifier)
            \<and> namespace parsedDocument = namespace this)
         \<and> isDefined (relativeShapes parsedDocument) (toRelative identifier)
      then True
      else isExternalShape this identifier parsedFiles)"

text \<open>The body of the loop of \<^verbatim>\<open>validateReferences\<close>, for one reference.\<close>

definition validateReference ::
  "ParsedDocument list \<Rightarrow> Reference \<Rightarrow> ParsedDocument \<Rightarrow> ParsedDocument" where
  "validateReference parsedFiles reference doc =
     (let resolvedId = resolveId doc (ref_identifier reference)
      in if \<not> isDefined (shapes doc) resolvedId
            \<and> \<not> isKnownReference (ref_identifier reference)
            \<and> \<not> isExternalShape doc (ref_identifier reference) parsedFiles
         then addMessage ''Unknown shape.'' (ref_token reference) (Some MError) False doc
         else doc)"

definition validateReferences :: "ParsedDocument list \<Rightarrow> ParsedDocument \<Rightarrow> ParsedDocument" where
  "validateReferences parsedFiles doc =
     (let doc1 = doc\<lparr> references := sortArray compareReferences (references doc) \<rparr>
      in fold (validateReference parsedFiles) (references doc1) doc1)"

text \<open>
  \<^verbatim>\<open>validate\<close>. Assigning \<^verbatim>\<open>messages.length\<close> cuts the array back to
  \<open>parsedMessageCount\<close> entries; the count never exceeds the length, since only
  \<open>finishParsing\<close> sets it and messages are only appended or cut back to it.
\<close>

definition validate :: "ParsedDocument list \<Rightarrow> ParsedDocument \<Rightarrow> ParsedDocument" where
  "validate parsedFiles doc =
     validateReferences parsedFiles
       (validateNamespace (doc\<lparr> messages := take (parsedMessageCount doc) (messages doc) \<rparr>))"

text \<open>
  The messages that one pass of the loop of \<open>validateReferences\<close> adds for a reference, the
  messages of \<open>validateNamespace\<close>, and the message of an unknown shape at a token.
\<close>

definition referenceMessages ::
  "ParsedDocument \<Rightarrow> ParsedDocument list \<Rightarrow> Reference \<Rightarrow> Message list" where
  "referenceMessages doc parsedFiles reference =
     messages (validateReference parsedFiles reference (doc\<lparr> messages := [] \<rparr>))"

definition namespaceMessages :: "ParsedDocument \<Rightarrow> Message list" where
  "namespaceMessages doc = messages (validateNamespace (doc\<lparr> messages := [] \<rparr>))"

definition unknownShapeMessage :: "Token \<Rightarrow> Message" where
  "unknownShapeMessage token =
     \<lparr> msg_type = MError,
       startIndex = (if tok_type token \<noteq> TEnd then int (index (tok_start token))
                     else int (index (tok_end token)) - 1),
       endIndex = int (index (tok_end token)), msg_text = ''Unknown shape.'' \<rparr>"

subsection \<open>Symbol lookup\<close>

text \<open>
  \<^verbatim>\<open>binarySearch\<close>. The indices are JavaScript numbers (\<open>rightIndex\<close> starts at \<open>-1\<close>
  for an empty array). \<^verbatim>\<open>>> 1\<close> halves \<open>rightIndex - leftIndex\<close>, which is non-negative
  in the loop and below \<open>2^31\<close> for every array a script can hold. A read outside the array
  gives \<^verbatim>\<open>undefined\<close>, on which the comparator of \<open>findSymbol\<close> throws a TypeError.
\<close>

function binarySearchLoop ::
  "'a list \<Rightarrow> 'v \<Rightarrow> ('v \<Rightarrow> 'a \<Rightarrow> int) \<Rightarrow> int \<Rightarrow> int \<Rightarrow> error + int" where
  "binarySearchLoop array element compareFunction leftIndex rightIndex =
     (if leftIndex \<le> rightIndex
      then (let middleIndex = leftIndex + (rightIndex - leftIndex) div 2
            in if middleIndex < 0 \<or> int (length array) \<le> middleIndex then Inl TypeError
               else (let cmp = compareFunction element (array ! nat middleIndex)
                     in if cmp > 0
                        then binarySearchLoop array element compareFunction (middleIndex + 1) rightIndex
                        else if cmp < 0
                        then binarySearchLoop array element compareFunction leftIndex (middleIndex - 1)
                        else Inr middleIndex))
      else Inr (- leftIndex - 1))"
  by pat_completeness auto
termination
  by (relation "measure (\<lambda>(array, element, compareFunction, leftIndex, rightIndex).
                  nat (rightIndex - leftIndex + 1))") auto

declare binarySearchLoop.simps [simp del]

definition binarySearch :: "'a list \<Rightarrow> 'v \<Rightarrow> ('v \<Rightarrow> 'a \<Rightarrow> int) \<Rightarrow> error + int" where
  "binarySearch array element compareFunction =
     binarySearchLoop array element compareFunction 0 (int (length array) - 1)"

text \<open>The comparator that \<open>findSymbol\<close> passes to \<open>binarySearch\<close>.\<close>

definition comparePosition :: "nat \<times> nat \<Rightarrow> Reference \<Rightarrow> int" where
  "comparePosition p reference =
     (let start = tok_start (ref_token reference); end' = tok_end (ref_token reference)
      in if line end' < fst p then 1
         else if line start > fst p then - 1
         else if line end' = fst p \<and> column end' < snd p then 1
         else if line start = fst p \<and> column start > snd p then - 1
         else 0)"

definition findSymbol :: "ParsedDocument \<Rightarrow> nat \<Rightarrow> nat \<Rightarrow> error + Reference option" where
  "findSymbol doc l c =
     (case binarySearch (references doc) (l, c) comparePosition of
        Inl e \<Rightarrow> Inl e
      | Inr i \<Rightarrow> Inr (if i \<ge> 0 then Some (references doc ! nat i) else None))"

text \<open>
  The order of two references by the ends of their tokens, as \<open>compareReferences\<close> orders
  them by the starts.
\<close>

definition endsInOrder :: "Reference \<Rightarrow> Reference \<Rightarrow> bool" where
  "endsInOrder a b =
     (let aEnd = tok_end (ref_token a); bEnd = tok_end (ref_token b)
      in line aEnd < line bEnd \<or> line aEnd = line bEnd \<and> column aEnd \<le> column bEnd)"

section \<open>Parser\<close>

text \<open>
  The parser holds the look-ahead token, the generator of the lexer and the document it
  fills. The generator is the list of the tokens it has still to yield.
\<close>

record Parser =
  currentToken :: Token
  tokens :: "Token list"
  parsedDocument :: ParsedDocument

text \<open>
  The token that \<^verbatim>\<open>advanceToken\<close> starts from when there is no look-ahead yet; it has
  no \<open>text\<close> and no \<open>value\<close>, which no method reads from a token of type \<open>End\<close>.
\<close>

definition endToken :: Token where
  "endToken =
     \<lparr> tok_type = TEnd, tok_start = \<lparr> index = 0, line = 0, column = 0 \<rparr>,
       tok_end = \<lparr> index = 0, line = 0, column = 0 \<rparr>, tok_text = [], tok_value = [] \<rparr>"

definition advanceToken :: "Parser \<Rightarrow> Parser" where
  "advanceToken p =
     (case tokens p of
        [] \<Rightarrow> p\<lparr> currentToken := (currentToken p)\<lparr> tok_type := TEnd \<rparr> \<rparr>
      | token # rest \<Rightarrow> p\<lparr> currentToken := token, tokens := rest \<rparr>)"

definition Parser_new :: "Token list \<Rightarrow> ParsedDocument \<Rightarrow> Parser" where
  "Parser_new ts doc =
     advanceToken \<lparr> currentToken = endToken, tokens = ts, parsedDocument = doc \<rparr>"

definition isDelimiter :: "string \<Rightarrow> Parser \<Rightarrow> bool" where
  "isDelimiter v p =
     (tok_type (currentToken p) = TDelimiter \<and> tok_value (currentToken p) = v)"

text \<open>\<^verbatim>\<open>this.parsedDocument.addMessage\<close> and \<^verbatim>\<open>addReference\<close>, on the parser.\<close>

definition withMessage ::
  "string \<Rightarrow> Token \<Rightarrow> MessageType option \<Rightarrow> bool \<Rightarrow> Parser \<Rightarrow> Parser" where
  "withMessage msg token mtype after p =
     p\<lparr> parsedDocument := addMessage msg token mtype after (parsedDocument p) \<rparr>"

definition withReference :: "Identifier \<Rightarrow> Token \<Rightarrow> ReferenceType \<Rightarrow> Parser \<Rightarrow> Parser" where
  "withReference identifier token rtype p =
     p\<lparr> parsedDocument := addReference identifier token rtype (parsedDocument p) \<rparr>"

definition expectIdentifier :: "Parser \<Rightarrow> Token option \<times> Parser" where
  "expectIdentifier p =
     (if tok_type (currentToken p) = TIdentifier
      then (Some (currentToken p), advanceToken p) else (None, p))"

text \<open>The strings of the enum \<^verbatim>\<open>TokenType\<close>, for the messages that print a type.\<close>

fun TokenType_string :: "TokenType \<Rightarrow> string" where
  "TokenType_string TError = ''Error''"
| "TokenType_string TComment = ''Comment''"
| "TokenType_string TDocumentationComment = ''DocumentationComment''"
| "TokenType_string TDelimiter = ''Delimiter''"
| "TokenType_string TString = ''String''"
| "TokenType_string TNumber = ''Number''"
| "TokenType_string TIdentifier = ''Identifier''"
| "TokenType_string TEnd = ''End''"

definition isLiteral :: "Token \<Rightarrow> bool" where
  "isLiteral token =
     (tok_type token = TString \<or> tok_type token = TNumber \<or> tok_type token = TIdentifier)"

subsection \<open>The value of an object\<close>

text \<open>
  The \<open>value\<close> of an object node is a JavaScript object: its own properties in the order
  in which they were created. \<^verbatim>\<open>value[k] = pair\<close> replaces the property \<open>k\<close> where it
  stands or adds it at the end; \<^verbatim>\<open>value[k]\<close> is truthy when the property is there, a
  pair being an object, and when the name is one that the object inherits.
\<close>

fun setProperty :: "string \<Rightarrow> 'a \<Rightarrow> (string \<times> 'a) list \<Rightarrow> (string \<times> 'a) list" where
  "setProperty k v [] = [(k, v)]"
| "setProperty k v ((k', v') # rest) =
     (if k' = k then (k, v) # rest else (k', v') # setProperty k v rest)"

text \<open>
  \<^verbatim>\<open>String(n)\<close> for the number of keys, in \<^verbatim>\<open>`${pair.key.value}${Object.keys(value).length}`\<close>.
\<close>

fun digitsOf :: "nat \<Rightarrow> nat \<Rightarrow> string" where
  "digitsOf 0 n = []"
| "digitsOf (Suc fuel) n =
     (if n < 10 then [char_of (48 + n)]
      else digitsOf fuel (n div 10) @ [char_of (48 + n mod 10)])"

definition natToString :: "nat \<Rightarrow> string" where
  "natToString n = digitsOf (Suc n) n"

text \<open>
  What \<^verbatim>\<open>expectNodeObject\<close> does with the pair of one pass of its loop. It returns the
  new value and the key under which an equal key had been stored, if any; the message for
  it is added by the caller.
\<close>

definition storePair :: "Node option \<Rightarrow> (string \<times> Node) list \<Rightarrow> (string \<times> Node) list" where
  "storePair pair v =
     (case pair of
        None \<Rightarrow> v
      | Some node \<Rightarrow>
          (case node_key node of
             None \<Rightarrow> v
           | Some k \<Rightarrow>
               (if isDefined (map_of v) (key_value k)
                then setProperty (key_value k @ natToString (length v)) node v
                else setProperty (key_value k) node v)))"

definition duplicateKey :: "Node option \<Rightarrow> (string \<times> Node) list \<Rightarrow> KeyNode option" where
  "duplicateKey pair v =
     (case pair of
        None \<Rightarrow> None
      | Some node \<Rightarrow>
          (case node_key node of
             None \<Rightarrow> None
           | Some k \<Rightarrow> (if isDefined (map_of v) (key_value k) then Some k else None)))"

subsection \<open>The key of a pair\<close>

text \<open>
  The key and the delimiter of a pair, after the leading traits. The result is the pair to
  return at once, if the method returns here, or else the key, the value token and whether
  the delimiter was there.
\<close>

datatype PairKey = Return "Node option" | Continue "KeyNode option" Token bool

definition pairKey :: "bool \<Rightarrow> string option \<Rightarrow> Parser \<Rightarrow> PairKey \<times> Parser" where
  "pairKey optionalKey delimiterOption p =
     (let token = currentToken p;
          key = (if isLiteral token
                 then Some \<lparr> key_value = tok_value token, key_token = token \<rparr> else None);
          p1 = (if isLiteral token then advanceToken p else p);
          delimiter = (case delimiterOption of None \<Rightarrow> '':'' | Some d \<Rightarrow> if d = [] then '':'' else d);
          hasKey = isDelimiter delimiter p1
      in if \<not> isLiteral token \<and> \<not> optionalKey
         then (Return None, withMessage ''Expected key.'' (currentToken p) None False p)
         else if \<not> optionalKey \<and> \<not> hasKey
         then (Return (Some (Node None Undefined (Some token))),
               withMessage (''Expected '' @ [CHR 0x27] @ delimiter @ '' ([object Object])'' @ [CHR 0x27] @ ''.'')
                 (currentToken p1) None False p1)
         else if hasKey
         then (Continue key (currentToken (advanceToken p1)) True, advanceToken p1)
         else (Continue key token False, p1))"


subsection \<open>Traits, pairs, values, arrays and objects\<close>

text \<open>
  \<^verbatim>\<open>expectTrait\<close>, \<^verbatim>\<open>expectKeyValuePair\<close>, \<^verbatim>\<open>expectValue\<close>,
  \<^verbatim>\<open>expectArrayObject\<close> and \<^verbatim>\<open>expectNodeObject\<close> call each other through
  \<^verbatim>\<open>this\<close>. Each body below is written over \<open>this\<close>, the record of the methods it
  calls; a method returns \<open>None\<close> when it does not return. The three \<^verbatim>\<open>do ... while\<close>
  loops are methods of the record too: one call is one pass of the loop, from its
  \<^verbatim>\<open>advanceToken()\<close> on.
\<close>

record Methods =
  m_expectTrait :: "Token \<Rightarrow> Parser \<Rightarrow> Parser option"
  m_traitArguments :: "Parser \<Rightarrow> Parser option"
  m_expectKeyValuePair :: "bool \<Rightarrow> string option \<Rightarrow> Parser \<Rightarrow> (Node option \<times> Parser) option"
  m_expectValue :: "Parser \<Rightarrow> (Node option \<times> Parser) option"
  m_expectArrayObject :: "Parser \<Rightarrow> (Node option \<times> Parser) option"
  m_arrayItems :: "Node option list \<Rightarrow> Parser \<Rightarrow> (Node option list \<times> Parser) option"
  m_expectNodeObject :: "Token \<Rightarrow> Parser \<Rightarrow> (Node option \<times> Parser) option"
  m_objectPairs ::
    "(string \<times> Node) list \<Rightarrow> Parser \<Rightarrow> ((string \<times> Node) list \<times> Parser) option"

text \<open>\<^verbatim>\<open>s.startsWith(c)\<close> for a string \<open>c\<close> of one unit.\<close>

definition startsWith :: "string \<Rightarrow> string \<Rightarrow> bool" where
  "startsWith s c = (take (length c) s = c)"

text \<open>The message for a missing closing delimiter, and the \<^verbatim>\<open>advanceToken()\<close> after it.\<close>

definition closeWith :: "string \<Rightarrow> Parser \<Rightarrow> Parser" where
  "closeWith d p =
     advanceToken
       (if \<not> isDelimiter d p
        then withMessage (''Expected '' @ [CHR 0x27] @ d @ [CHR 0x27] @ ''.'') (currentToken p) None False p
        else p)"

definition expectTrait_body :: "Methods \<Rightarrow> Token \<Rightarrow> Parser \<Rightarrow> Parser option" where
  "expectTrait_body this previousToken p =
     (case expectIdentifier p of
        (None, p1) \<Rightarrow> Some (withMessage ''Expected trait name.'' previousToken None False p1)
      | (Some identifierToken, p1) \<Rightarrow>
          (if charAt (tok_text identifierToken) 0 \<noteq> ''@'' \<or> length (tok_text identifierToken) = 1
           then Some (withMessage ''Expected trait name.'' previousToken None False p1)
           else (let identifier = Identifier_new (drop 1 (tok_value identifierToken));
                     p2 = withReference identifier identifierToken RTrait p1
                 in if isDelimiter ''('' p2
                    then map_option (closeWith '')'') (m_traitArguments this p2)
                    else Some p2)))"

definition traitArguments_body :: "Methods \<Rightarrow> Parser \<Rightarrow> Parser option" where
  "traitArguments_body this p =
     (let p1 = advanceToken p
      in if isDelimiter '')'' p1 then Some p1
         else (case m_expectKeyValuePair this True None p1 of
                 None \<Rightarrow> None
               | Some (pair, p2) \<Rightarrow>
                   (if isDelimiter '','' p2 then m_traitArguments this p2 else Some p2)))"

text \<open>\<^verbatim>\<open>{ key, ...value }\<close>, for the \<open>value\<close> of \<^verbatim>\<open>expectKeyValuePair\<close>.\<close>

definition withKey :: "KeyNode option \<Rightarrow> Node option \<Rightarrow> Node" where
  "withKey key v =
     (case v of
        None \<Rightarrow> Node key Undefined None
      | Some node \<Rightarrow> Node key (node_value node) (node_token node))"

text \<open>The second \<^verbatim>\<open>switch\<close> of \<^verbatim>\<open>expectKeyValuePair\<close> and its \<^verbatim>\<open>return\<close>.\<close>

definition pairValue ::
  "Methods \<Rightarrow> KeyNode option \<Rightarrow> Token \<Rightarrow> bool \<Rightarrow> Parser \<Rightarrow> (Node option \<times> Parser) option" where
  "pairValue this key token hasKey p =
     (if isLiteral token
      then Some (Some (withKey key
                   (Some (Node None
                      (if tok_type token \<noteq> TNumber then Str (tok_value token)
                       else Num (tok_value token))
                      (Some token)))),
                 if hasKey then advanceToken p else p)
      else if tok_type token = TDelimiter
      then (if tok_value token = ''[''
            then map_option (\<lambda>(v, p1). (Some (withKey key v), p1)) (m_expectArrayObject this p)
            else if tok_value token = ''{''
            then map_option (\<lambda>(v, p1). (Some (withKey key v), p1))
                   (m_expectNodeObject this token p)
            else Some (Some (withKey key None),
                       withMessage (''Expected value but found a delimiter. '' @ tok_value token)
                         (currentToken p) None False p))
      else Some (Some (withKey key None),
                 withMessage (''Expected value. '' @ TokenType_string (tok_type token))
                   (currentToken p) None False p))"

definition expectKeyValuePair_body ::
  "Methods \<Rightarrow> bool \<Rightarrow> string option \<Rightarrow> Parser \<Rightarrow> (Node option \<times> Parser) option" where
  "expectKeyValuePair_body this optionalKey delimiter p =
     (if tok_type (currentToken p) = TIdentifier \<and> startsWith (tok_value (currentToken p)) ''@''
      then (case m_expectTrait this (currentToken p) p of
              None \<Rightarrow> None
            | Some p1 \<Rightarrow> m_expectKeyValuePair this optionalKey delimiter p1)
      else (case pairKey optionalKey delimiter p of
              (Return node, p1) \<Rightarrow> Some (node, p1)
            | (Continue key token hasKey, p1) \<Rightarrow> pairValue this key token hasKey p1))"

definition expectValue_body :: "Methods \<Rightarrow> Parser \<Rightarrow> (Node option \<times> Parser) option" where
  "expectValue_body this p =
     (let token = currentToken p
      in if isLiteral token
         then Some (Some (Node None Undefined (Some token)), advanceToken p)
         else if tok_type token = TDelimiter
         then (if tok_value token = ''['' then m_expectArrayObject this p
               else if tok_value token = ''{'' then m_expectNodeObject this token p
               else Some (None, p))
         else Some (None, withMessage ''Expected value.'' (currentToken p) None False p))"

definition expectArrayObject_body :: "Methods \<Rightarrow> Parser \<Rightarrow> (Node option \<times> Parser) option" where
  "expectArrayObject_body this p =
     (if \<not> isDelimiter ''['' p
      then Some (None, withMessage (''Expected '' @ [CHR 0x27] @ ''['' @ [CHR 0x27] @ ''.'')
                         (currentToken p) None False p)
      else map_option
             (\<lambda>(v, p1). (Some (Node None (Arr v) (Some (currentToken p))), closeWith '']'' p1))
             (m_arrayItems this [] p))"

definition arrayItems_body ::
  "Methods \<Rightarrow> Node option list \<Rightarrow> Parser \<Rightarrow> (Node option list \<times> Parser) option" where
  "arrayItems_body this v p =
     (let p1 = advanceToken p
      in if isDelimiter '']'' p1 then Some (v, p1)
         else (case m_expectValue this p1 of
                 None \<Rightarrow> None
               | Some (item, p2) \<Rightarrow>
                   (if isDelimiter '','' p2 then m_arrayItems this (v @ [item]) p2
                    else Some (v @ [item], p2))))"

definition expectNodeObject_body ::
  "Methods \<Rightarrow> Token \<Rightarrow> Parser \<Rightarrow> (Node option \<times> Parser) option" where
  "expectNodeObject_body this afterToken p =
     (if \<not> isDelimiter ''{'' p
      then Some (None, withMessage (''Expected '' @ [CHR 0x27] @ ''{'' @ [CHR 0x27] @ ''. ''
                                  @ TokenType_string (tok_type (currentToken p)))
                         afterToken None True p)
      else map_option
             (\<lambda>(v, p1). (Some (Node None (Obj v) (Some (currentToken p))), closeWith ''}'' p1))
             (m_objectPairs this [] p))"

definition objectPairs_body ::
  "Methods \<Rightarrow> (string \<times> Node) list \<Rightarrow> Parser \<Rightarrow> ((string \<times> Node) list \<times> Parser) option" where
  "objectPairs_body this v p =
     (let p1 = advanceToken p
      in if isDelimiter ''}'' p1 then Some (v, p1)
         else (case m_expectKeyValuePair this False None p1 of
                 None \<Rightarrow> None
               | Some (pair, p2) \<Rightarrow>
                   (let p3 = (case duplicateKey pair v of
                                Some k \<Rightarrow>
                                  withMessage (''Key '' @ [CHR 0x27] @ key_value k @ [CHR 0x27]
                                             @ '' is already defined.'')
                                    (key_token k) None False p2
                              | None \<Rightarrow> p2)
                    in if isDelimiter '','' p3 then m_objectPairs this (storePair pair v) p3
                       else Some (storePair pair v, p3))))"

text \<open>
  The parser whose calls nest at most \<open>n\<close> deep: with no call left no method returns, and
  with \<open>n + 1\<close> each method is its body over the parser with \<open>n\<close>.
\<close>

primrec methods :: "nat \<Rightarrow> Methods" where
  "methods 0 =
     \<lparr> m_expectTrait = (\<lambda>previousToken p. None), m_traitArguments = (\<lambda>p. None),
       m_expectKeyValuePair = (\<lambda>optionalKey delimiter p. None), m_expectValue = (\<lambda>p. None),
       m_expectArrayObject = (\<lambda>p. None), m_arrayItems = (\<lambda>v p. None),
       m_expectNodeObject = (\<lambda>afterToken p. None), m_objectPairs = (\<lambda>v p. None) \<rparr>"
| "methods (Suc n) =
     \<lparr> m_expectTrait = expectTrait_body (methods n),
       m_traitArguments = traitArguments_body (methods n),
       m_expectKeyValuePair = expectKeyValuePair_body (methods n),
       m_expectValue = expectValue_body (methods n),
       m_expectArrayObject = expectArrayObject_body (methods n),
       m_arrayItems = arrayItems_body (methods n),
       m_expectNodeObject = expectNodeObject_body (methods n),
       m_objectPairs = objectPairs_body (methods n) \<rparr>"

definition expectTrait :: "nat \<Rightarrow> Token \<Rightarrow> Parser \<Rightarrow> Parser option" where
  "expectTrait n = m_expectTrait (methods n)"

definition expectKeyValuePair ::
  "nat \<Rightarrow> bool \<Rightarrow> string option \<Rightarrow> Parser \<Rightarrow> (Node option \<times> Parser) option" where
  "expectKeyValuePair n = m_expectKeyValuePair (methods n)"

definition expectValue :: "nat \<Rightarrow> Parser \<Rightarrow> (Node option \<times> Parser) option" where
  "expectValue n = m_expectValue (methods n)"

definition expectArrayObject :: "nat \<Rightarrow> Parser \<Rightarrow> (Node option \<times> Parser) option" where
  "expectArrayObject n = m_expectArrayObject (methods n)"

definition expectNodeObject :: "nat \<Rightarrow> Token \<Rightarrow> Parser \<Rightarrow> (Node option \<times> Parser) option" where
  "expectNodeObject n = m_expectNodeObject (methods n)"

text \<open>The three loops, by the number of calls that may nest in a pass.\<close>

definition traitArguments :: "nat \<Rightarrow> Parser \<Rightarrow> Parser option" where
  "traitArguments n = m_traitArguments (methods n)"

definition arrayItems ::
  "nat \<Rightarrow> Node option list \<Rightarrow> Parser \<Rightarrow> (Node option list \<times> Parser) option" where
  "arrayItems n = m_arrayItems (methods n)"

definition objectPairs ::
  "nat \<Rightarrow> (string \<times> Node) list \<Rightarrow> Parser \<Rightarrow> ((string \<times> Node) list \<times> Parser) option" where
  "objectPairs n = m_objectPairs (methods n)"

text \<open>
  The equations by which the methods are evaluated: a method with \<open>n + 1\<close> is its body over
  the methods with \<open>n\<close>, each of which is unfolded only where it is called.
\<close>

lemma methods_code [code]:
  "methods n =
     \<lparr> m_expectTrait = expectTrait n, m_traitArguments = traitArguments n,
       m_expectKeyValuePair = expectKeyValuePair n, m_expectValue = expectValue n,
       m_expectArrayObject = expectArrayObject n, m_arrayItems = arrayItems n,
       m_expectNodeObject = expectNodeObject n, m_objectPairs = objectPairs n \<rparr>"
  by (simp add: expectTrait_def traitArguments_def expectKeyValuePair_def expectValue_def
      expectArrayObject_def arrayItems_def expectNodeObject_def objectPairs_def)

lemma expectTrait_code [code]:
  "expectTrait n previousToken p =
     (case n of 0 \<Rightarrow> None | Suc m \<Rightarrow> expectTrait_body (methods m) previousToken p)"
  by (cases n) (simp_all add: expectTrait_def)

lemma traitArguments_code [code]:
  "traitArguments n p = (case n of 0 \<Rightarrow> None | Suc m \<Rightarrow> traitArguments_body (methods m) p)"
  by (cases n) (simp_all add: traitArguments_def)

lemma expectKeyValuePair_code [code]:
  "expectKeyValuePair n optionalKey delimiter p =
     (case n of
        0 \<Rightarrow> None
      | Suc m \<Rightarrow> expectKeyValuePair_body (methods m) optionalKey delimiter p)"
  by (cases n) (simp_all add: expectKeyValuePair_def)

lemma expectValue_code [code]:
  "expectValue n p = (case n of 0 \<Rightarrow> None | Suc m \<Rightarrow> expectValue_body (methods m) p)"
  by (cases n) (simp_all add: expectValue_def)

lemma expectArrayObject_code [code]:
  "expectArrayObject n p =
     (case n of 0 \<Rightarrow> None | Suc m \<Rightarrow> expectArrayObject_body (methods m) p)"
  by (cases n) (simp_all add: expectArrayObject_def)

lemma arrayItems_code [code]:
  "arrayItems n v p = (case n of 0 \<Rightarrow> None | Suc m \<Rightarrow> arrayItems_body (methods m) v p)"
  by (cases n) (simp_all add: arrayItems_def)

lemma expectNodeObject_code [code]:
  "expectNodeObject n afterToken p =
     (case n of 0 \<Rightarrow> None | Suc m \<Rightarrow> expectNodeObject_body (methods m) afterToken p)"
  by (cases n) (simp_all add: expectNodeObject_def)

lemma objectPairs_code [code]:
  "objectPairs n v p = (case n of 0 \<Rightarrow> None | Suc m \<Rightarrow> objectPairs_body (methods m) v p)"
  by (cases n) (simp_all add: objectPairs_def)


section \<open>Schema\<close>

text \<open>
  A schema of \<^verbatim>\<open>schema.ts\<close>: an object with a \<^verbatim>\<open>type\<close> and the optional members of
  the four interfaces; an absent \<^verbatim>\<open>required\<close> is \<open>False\<close>, which is how it is read.
\<close>

datatype Schema =
  Schema (schema_type: string) (schema_required: bool)
    (schema_structure: "(string \<times> Schema) list option") (schema_anyMember: "Schema option")
    (schema_member: "Schema option") (schema_key: "Schema option")
    (schema_value: "Schema option")

definition memberSchema :: "string \<Rightarrow> Schema" where
  "memberSchema t = Schema t False None None None None None"

definition structureSchema :: "(string \<times> Schema) list \<Rightarrow> Schema" where
  "structureSchema members = Schema ''structure'' False (Some members) None None None None"

definition anyMemberSchema :: "Schema \<Rightarrow> Schema" where
  "anyMemberSchema m = Schema ''structure'' False None (Some m) None None None"

definition listSchema :: "Schema \<Rightarrow> Schema" where
  "listSchema m = Schema ''list'' False None None (Some m) None None"

definition mapSchema :: "Schema \<Rightarrow> Schema \<Rightarrow> Schema" where
  "mapSchema k v = Schema ''map'' False None None None (Some k) (Some v)"

text \<open>The table \<^verbatim>\<open>Schema\<close>, in the order of its keys.\<close>

definition Schema_table :: "(string \<times> Schema) list" where
  "Schema_table =
     [(''member'', memberSchema ''member''),
      (''list'', structureSchema [(''member'', memberSchema ''member'')]),
      (''set'', structureSchema [(''member'', memberSchema ''member'')]),
      (''map'', structureSchema [(''key'', memberSchema ''member''),
                                 (''value'', memberSchema ''member'')]),
      (''structure'', anyMemberSchema (memberSchema ''member'')),
      (''union'', anyMemberSchema (memberSchema ''member'')),
      (''service'',
         structureSchema
           [(''version'', Schema ''string'' True None None None None None),
            (''operations'', listSchema (memberSchema ''member'')),
            (''resources'', listSchema (memberSchema ''member'')),
            (''rename'', mapSchema (memberSchema ''string'') (memberSchema ''string''))]),
      (''operation'',
         structureSchema
           [(''input'', memberSchema ''member''),
            (''output'', memberSchema ''member''),
            (''errors'', listSchema (memberSchema ''member''))]),
      (''resource'',
         structureSchema
           [(''identifiers'', mapSchema (memberSchema ''identifier'') (memberSchema ''member'')),
            (''create'', memberSchema ''member''),
            (''put'', memberSchema ''member''),
            (''read'', memberSchema ''member''),
            (''update'', memberSchema ''member''),
            (''delete'', memberSchema ''member''),
            (''list'', memberSchema ''member''),
            (''operations'', listSchema (memberSchema ''member'')),
            (''collectionOperations'', listSchema (memberSchema ''member'')),
            (''resources'', listSchema (memberSchema ''member''))])]"

text \<open>
  The values of \<^verbatim>\<open>AggregateShapes\<close> and \<^verbatim>\<open>ServiceShapes\<close> that are the cases of
  the shape statement in \<^verbatim>\<open>parse\<close>.
\<close>

definition shapeStatementNames :: "string list" where
  "shapeStatementNames =
     [''list'', ''set'', ''map'', ''structure'', ''union'', ''service'', ''operation'',
      ''resource'']"

section \<open>Built-ins of the host\<close>

text \<open>
  Three built-in functions of JavaScript are parameters of the model: the text of
  \<^verbatim>\<open>JSON.stringify\<close> of a node that may be undefined, \<^verbatim>\<open>encodeURIComponent\<close>, which
  throws a URIError on a lone surrogate, and whether \<^verbatim>\<open>Number(text)\<close> is truthy, that
  is, neither zero nor NaN.
\<close>

record Host =
  JSON_stringify :: "Node option \<Rightarrow> string"
  encodeURIComponent :: "string \<Rightarrow> error + string"
  Number_truthy :: "string \<Rightarrow> bool"

text \<open>
  Truthiness of the value of a node, and of the lookup \<^verbatim>\<open>map[key]\<close> in a dictionary of
  such values, \<open>metadata\<close> or \<open>controls\<close>.
\<close>

definition valueTruthy :: "Host \<Rightarrow> NodeValue \<Rightarrow> bool" where
  "valueTruthy host v =
     (case v of
        Undefined \<Rightarrow> False
      | Str s \<Rightarrow> s \<noteq> []
      | Num t \<Rightarrow> Number_truthy host t
      | Obj kv \<Rightarrow> True
      | Arr items \<Rightarrow> True)"

definition isSet :: "Host \<Rightarrow> (string \<rightharpoonup> NodeValue) \<Rightarrow> string \<Rightarrow> bool" where
  "isSet host m k =
     (case getProperty m k of
        Missing \<Rightarrow> False
      | Inherited \<Rightarrow> True
      | Own v \<Rightarrow> valueTruthy host v)"

text \<open>
  The assignment \<^verbatim>\<open>map[key] = value\<close> in such a dictionary. Under the name
  \<^verbatim>\<open>__proto__\<close> it calls the setter that the object inherits, which creates no
  property; for a value that is an object or an array the setter replaces the prototype of
  the dictionary, and the names inherited from then on are outside the model.
\<close>

definition assign :: "(string \<rightharpoonup> 'a) \<Rightarrow> string \<Rightarrow> 'a \<Rightarrow> (string \<rightharpoonup> 'a)" where
  "assign m k v = (if k = ''__proto__'' then m else m(k \<mapsto> v))"

text \<open>A string that may be undefined, as a property name and in a template.\<close>

definition propertyName :: "string option \<Rightarrow> string" where
  "propertyName k = (case k of None \<Rightarrow> ''undefined'' | Some s \<Rightarrow> s)"

subsection \<open>The entries of an object\<close>

text \<open>
  \<^verbatim>\<open>Object.entries\<close> lists the properties whose names are array indices first, in
  ascending order, and then the others in the order in which they were created.
\<close>

definition numberOf :: "string \<Rightarrow> nat" where
  "numberOf k = foldl (\<lambda>n c. 10 * n + (of_char c - 48)) 0 k"

definition isArrayIndex :: "string \<Rightarrow> bool" where
  "isArrayIndex k =
     (k \<noteq> [] \<and> list_all isDigit k \<and> (k = ''0'' \<or> hd k \<noteq> CHR ''0'')
      \<and> numberOf k < 2 ^ 32 - 1)"

definition ownEntries :: "(string \<times> 'a) list \<Rightarrow> (string \<times> 'a) list" where
  "ownEntries kv =
     sortArray (\<lambda>a b. int (numberOf (fst a)) - int (numberOf (fst b)))
       (filter (\<lambda>e. isArrayIndex (fst e)) kv)
     @ filter (\<lambda>e. \<not> isArrayIndex (fst e)) kv"

text \<open>
  \<^verbatim>\<open>Object.entries(node.value)\<close> and \<^verbatim>\<open>node.value[fieldName]\<close>, where the parser
  uses them: on the value of a node whose token is the delimiter \<open>{\<close>. Such a node is
  built by \<^verbatim>\<open>expectNodeObject\<close> only, with an object as its value; both throw a
  TypeError on \<^verbatim>\<open>undefined\<close>, and the other values, which are not met there, are
  given no entries.
\<close>

definition Object_entries :: "NodeValue \<Rightarrow> error + (string \<times> Node) list" where
  "Object_entries v =
     (case v of
        Undefined \<Rightarrow> Inl TypeError
      | Obj kv \<Rightarrow> Inr (ownEntries kv)
      | Str s \<Rightarrow> Inr []
      | Num t \<Rightarrow> Inr []
      | Arr items \<Rightarrow> Inr [])"

definition hasProperty :: "NodeValue \<Rightarrow> string \<Rightarrow> error + bool" where
  "hasProperty v fieldName =
     (case v of
        Undefined \<Rightarrow> Inl TypeError
      | Obj kv \<Rightarrow> Inr (isDefined (map_of kv) fieldName)
      | Str s \<Rightarrow> Inr False
      | Num t \<Rightarrow> Inr False
      | Arr items \<Rightarrow> Inr False)"


section \<open>Validation against a schema\<close>

text \<open>
  These methods of the parser read and write its document only, so they are functions on
  the document. \<^verbatim>\<open>addMemberReference\<close> and \<^verbatim>\<open>addMember\<close> throw a TypeError where
  they read a property of \<^verbatim>\<open>undefined\<close>, and \<^verbatim>\<open>addMember\<close> where \<open>addShape\<close> does.
\<close>

definition addMemberReference :: "Node option \<Rightarrow> ParsedDocument \<Rightarrow> error + ParsedDocument" where
  "addMemberReference v doc =
     (case v of
        None \<Rightarrow> Inr doc
      | Some node \<Rightarrow>
          (case node_token node of
             None \<Rightarrow> Inl TypeError
           | Some token \<Rightarrow>
               (if tok_type token = TIdentifier
                then Inr (addReference (Identifier_new (tok_value token)) token RMember doc)
                else Inr (addMessage ''Expected shape identifier.'' token None False doc))))"

definition addMember ::
  "Identifier \<Rightarrow> Token \<Rightarrow> Node \<Rightarrow> ParsedDocument \<Rightarrow> error + ParsedDocument" where
  "addMember identifier identifierToken v doc =
     (case node_key v of
        None \<Rightarrow> Inl TypeError
      | Some k \<Rightarrow>
          (let memberIdentifier = forMember identifier (tok_value (key_token k))
           in andThen (addShape memberIdentifier (key_token k) doc)
                (\<lambda>doc1. Inr (addReference memberIdentifier (key_token k) RShape doc1))))"

text \<open>\<^verbatim>\<open>!node || !node.token\<close> is \<open>None\<close> here, and \<^verbatim>\<open>node.value\<close> of a node.\<close>

definition tokenOf :: "Node option \<Rightarrow> Token option" where
  "tokenOf node = (case node of None \<Rightarrow> None | Some n \<Rightarrow> node_token n)"

definition valueOf :: "Node option \<Rightarrow> NodeValue" where
  "valueOf node = (case node of None \<Rightarrow> Undefined | Some n \<Rightarrow> node_value n)"

text \<open>\<^verbatim>\<open>fieldValue.key\<close> as the node that the map case validates.\<close>

definition keyAsNode :: "KeyNode \<Rightarrow> Node" where
  "keyAsNode k = Node None (Str (key_value k)) (Some (key_token k))"

text \<open>\<^verbatim>\<open>x ?? y\<close>.\<close>

definition orElse :: "'a option \<Rightarrow> 'a \<Rightarrow> 'a" where
  "orElse x y = (case x of None \<Rightarrow> y | Some v \<Rightarrow> v)"

text \<open>The first loop of the structure case: the required members.\<close>

definition requiredMember ::
  "Token \<Rightarrow> NodeValue \<Rightarrow> string \<times> Schema \<Rightarrow> ParsedDocument \<Rightarrow> error + ParsedDocument" where
  "requiredMember identifierToken v field doc =
     (if schema_required (snd field)
      then andThen (hasProperty v (fst field))
             (\<lambda>present.
                Inr (if \<not> present
                     then addMessage (''Missing '' @ [CHR 0x27] @ fst field @ [CHR 0x27] @ '' member.'')
                            identifierToken None False doc
                     else doc))
      else Inr doc)"

text \<open>
  The call of \<^verbatim>\<open>validateValueAgainstSchema\<close> on a member whose schema is the value
  that \<^verbatim>\<open>schema.structure\<close> inherits under the member's name: it is truthy and its
  \<^verbatim>\<open>type\<close> is \<^verbatim>\<open>undefined\<close>, so the call ends in the default case.
\<close>

definition inheritedSchema :: "Host \<Rightarrow> Token \<Rightarrow> Node \<Rightarrow> ParsedDocument \<Rightarrow> ParsedDocument" where
  "inheritedSchema host identifierToken fieldValue doc =
     (case node_token fieldValue of
        None \<Rightarrow>
          addMessage (''Expected a value.'' @ JSON_stringify host (Some fieldValue))
            identifierToken None False doc
      | Some token \<Rightarrow> addMessage ''Not implemented yet undefined.'' token None False doc)"

lemma size_map_of:
  assumes "map_of members k = Some (s :: Schema)"
  shows "size s < Suc (size_list (size_prod (\<lambda>x. 0) size) members)"
  using assms by (induction members) (auto split: if_splits)

function validateValueAgainstSchema ::
  "Host \<Rightarrow> Token \<Rightarrow> Node option \<Rightarrow> Schema option \<Rightarrow> ParsedDocument \<Rightarrow> error + ParsedDocument" where
  "validateValueAgainstSchema host identifierToken node schema doc =
     (case schema of
        None \<Rightarrow> Inr doc
      | Some (Schema stype required struct anyMember member keySchema valueSchema) \<Rightarrow>
          (case tokenOf node of
             None \<Rightarrow>
               Inr (addMessage (''Expected a value.'' @ JSON_stringify host node)
                      identifierToken None False doc)
           | Some token \<Rightarrow>
               (if stype = ''identifier''
                then Inr (if tok_type token \<noteq> TIdentifier
                          then addMessage ''Expected an identifier.'' token None False doc
                          else doc)
                else if stype = ''member''
                then (if tok_type token \<noteq> TIdentifier
                      then Inr (addMessage ''Expected an identifier.'' token None False doc)
                      else addMemberReference node doc)
                else if stype = ''structure''
                then (if tok_type token \<noteq> TDelimiter \<or> tok_value token \<noteq> ''{''
                      then Inr (addMessage ''Expected an object.'' token None False doc)
                      else andThen
                             (case struct of
                                None \<Rightarrow> Inr doc
                              | Some members \<Rightarrow>
                                  andThen
                                    (forEach (requiredMember identifierToken (valueOf node))
                                       members doc)
                                    (\<lambda>doc1.
                                       andThen (Object_entries (valueOf node))
                                         (\<lambda>entries.
                                            forEach
                                              (\<lambda>(fieldName, fieldValue) d.
                                                 (case (case anyMember of
                                                          Some a \<Rightarrow> Own a
                                                        | None \<Rightarrow>
                                                            getProperty (map_of members) fieldName) of
                                                    Missing \<Rightarrow>
                                                      Inr (addMessage
                                                             (''Unexpected member '' @ [CHR 0x27]
                                                                @ fieldName @ [CHR 0x27] @ ''.'')
                                                             (case node_key fieldValue of
                                                                Some k \<Rightarrow> key_token k
                                                              | None \<Rightarrow> identifierToken)
                                                             None False d)
                                                  | Inherited \<Rightarrow>
                                                      Inr (inheritedSchema host identifierToken
                                                             fieldValue d)
                                                  | Own fieldSchema \<Rightarrow>
                                                      validateValueAgainstSchema host
                                                        (orElse (node_token fieldValue) identifierToken)
                                                        (Some fieldValue) (Some fieldSchema) d))
                                              entries doc1)))
                             (\<lambda>doc2.
                                andThen (Object_entries (valueOf node))
                                  (\<lambda>entries.
                                     forEach
                                       (\<lambda>(fieldName, fieldValue) d.
                                          validateValueAgainstSchema host
                                            (orElse (node_token fieldValue) identifierToken)
                                            (Some fieldValue) anyMember d)
                                       entries doc2)))
                else if stype = ''list''
                then (case valueOf node of
                        Arr items \<Rightarrow>
                          (if tok_type token \<noteq> TDelimiter \<or> tok_value token \<noteq> ''[''
                           then Inr (addMessage ''Expected a list.'' token None False doc)
                           else forEach
                                  (\<lambda>itemValue d.
                                     (case itemValue of
                                        None \<Rightarrow> Inl TypeError
                                      | Some item \<Rightarrow>
                                          validateValueAgainstSchema host
                                            (orElse (node_token item) identifierToken)
                                            (Some item) member d))
                                  items doc)
                      | _ \<Rightarrow> Inr (addMessage ''Expected a list.'' token None False doc))
                else if stype = ''map''
                then (if tok_type token \<noteq> TDelimiter \<or> tok_value token \<noteq> ''{''
                      then Inr (addMessage ''Expected a map.'' token None False doc)
                      else andThen (Object_entries (valueOf node))
                             (\<lambda>entries.
                                forEach
                                  (\<lambda>(fieldName, fieldValue) d.
                                     andThen
                                       (validateValueAgainstSchema host
                                          (orElse (map_option key_token (node_key fieldValue))
                                             identifierToken)
                                          (map_option keyAsNode (node_key fieldValue)) keySchema d)
                                       (\<lambda>d1.
                                          validateValueAgainstSchema host
                                            (orElse (node_token fieldValue) identifierToken)
                                            (Some fieldValue) valueSchema d1))
                                  entries doc))
                else if stype = ''string''
                then Inr (if tok_type token \<noteq> TString
                          then addMessage ''Expected a string.'' token None False doc
                          else doc)
                else Inr (addMessage (''Not implemented yet '' @ stype @ ''.'') token None False doc))))"
  by pat_completeness auto
termination
  by (relation "measure (\<lambda>(host, identifierToken, node, schema, doc). size_option size schema)")
    (auto simp add: getProperty_def dest: size_map_of split: option.splits if_splits)

declare validateValueAgainstSchema.simps [simp del]


section \<open>Statements\<close>

text \<open>An operation of the document, on the parser that holds it, and one that may throw.\<close>

definition onDocument :: "(ParsedDocument \<Rightarrow> ParsedDocument) \<Rightarrow> Parser \<Rightarrow> Parser" where
  "onDocument f p = p\<lparr> parsedDocument := f (parsedDocument p) \<rparr>"

definition tryOnDocument ::
  "(ParsedDocument \<Rightarrow> error + ParsedDocument) \<Rightarrow> Parser \<Rightarrow> error + Parser" where
  "tryOnDocument f p = map_sum id (\<lambda>doc. p\<lparr> parsedDocument := doc \<rparr>) (f (parsedDocument p))"

text \<open>\<^verbatim>\<open>node?.key\<close>.\<close>

definition keyOf :: "Node option \<Rightarrow> KeyNode option" where
  "keyOf node = (case node of None \<Rightarrow> None | Some n \<Rightarrow> node_key n)"

text \<open>The pattern \<^verbatim>\<open>/^[0-9](?:\.[0-9])?$/\<close>.\<close>

definition versionFormat :: "string \<Rightarrow> bool" where
  "versionFormat s =
     (case s of
        [a] \<Rightarrow> isDigit a
      | [a, b, c] \<Rightarrow> isDigit a \<and> b = CHR ''.'' \<and> isDigit c
      | _ \<Rightarrow> False)"

text \<open>\<^verbatim>\<open>expectControlStatement\<close>, after its call of \<^verbatim>\<open>expectKeyValuePair\<close>.\<close>

definition controlStatement :: "Host \<Rightarrow> bool \<Rightarrow> Node option \<Rightarrow> Parser \<Rightarrow> Parser" where
  "controlStatement host separatedPrefix node p =
     (let v = valueOf node;
          keyNode = keyOf node;
          keyValue = (case keyNode of
                        None \<Rightarrow> None
                      | Some k \<Rightarrow>
                          (if \<not> separatedPrefix \<and> tok_type (key_token k) = TIdentifier
                           then Some (drop 1 (key_value k)) else Some (key_value k)));
          keyToken = orElse (map_option key_token keyNode) (currentToken p);
          p1 = (if keyValue = Some ''version''
                then (case v of
                        Str s \<Rightarrow>
                          (if \<not> versionFormat s
                           then withMessage
                                  (''Version value must be in format 'major' or 'major.minor'.'')
                                  (orElse (tokenOf node) (currentToken p)) None False p
                           else p)
                      | _ \<Rightarrow>
                          withMessage ''Version value must be a string.''
                            (orElse (tokenOf node) (currentToken p)) None False p)
                else withMessage (''Only 'version' is supported.'') keyToken (Some MWarning) False p);
          p2 = (if isSet host (controls (parsedDocument p1)) (propertyName keyValue)
                then withMessage (''Control '' @ [CHR 0x27] @ propertyName keyValue @ [CHR 0x27]
                                    @ '' is already defined.'')
                       keyToken (Some MError) False p1
                else p1)
      in onDocument (\<lambda>doc. doc\<lparr> controls := assign (controls doc) (propertyName keyValue) v \<rparr>)
           p2)"

definition expectControlStatement :: "Host \<Rightarrow> nat \<Rightarrow> Parser \<Rightarrow> Parser option" where
  "expectControlStatement host n p =
     (let p1 = (if \<not> startsWith (tok_value (currentToken p)) ''$''
                then withMessage ''Expected control statement key.'' (currentToken p) None False p
                else p);
          separatedPrefix = (length (tok_value (currentToken p1)) = 1);
          p2 = (if separatedPrefix then advanceToken p1 else p1)
      in map_option (\<lambda>(node, p3). controlStatement host separatedPrefix node p3)
           (expectKeyValuePair n False None p2))"

text \<open>
  The cases of the \<^verbatim>\<open>switch\<close> of \<^verbatim>\<open>parse\<close>, each on the statement token, which is
  the current token of the parser. A case that calls one of the methods above returns
  \<open>None\<close> when that call does not return.
\<close>

definition metadataStatement :: "Host \<Rightarrow> nat \<Rightarrow> Token \<Rightarrow> Parser \<Rightarrow> Parser option" where
  "metadataStatement host n statementToken p =
     map_option
       (\<lambda>(node, p1).
          (let v = valueOf node;
               keyNode = keyOf node;
               keyValue = map_option key_value keyNode;
               p2 = (if isSet host (metadata (parsedDocument p1)) (propertyName keyValue)
                     then withMessage (''Metadata '' @ [CHR 0x27] @ propertyName keyValue
                                         @ [CHR 0x27] @ '' is already defined.'')
                            (orElse (map_option key_token keyNode) (currentToken p1))
                            (Some MWarning) False p1
                     else p1)
           in onDocument
                (\<lambda>doc. doc\<lparr> metadata := assign (metadata doc) (propertyName keyValue) v \<rparr>)
                p2))
       (expectKeyValuePair n False (Some ''='')
          (advanceToken (onDocument (enterSection SMetadata statementToken) p)))"

definition namespaceStatement :: "Token \<Rightarrow> Parser \<Rightarrow> Parser" where
  "namespaceStatement statementToken p =
     (let p1 = onDocument (enterSection SShape statementToken) p;
          namespaceToken = currentToken p1;
          p2 = (if namespace (parsedDocument p1) \<noteq> None
                then withMessage (''Namespace was already defined as '[object Object]'.'')
                       namespaceToken None False p1
                else p1);
          p3 = advanceToken p2
      in if tok_type (currentToken p3) \<noteq> TIdentifier
         then withMessage ''Expected namespace.'' namespaceToken None False p3
         else advanceToken
                (onDocument (\<lambda>doc. doc\<lparr> namespace := Some (tok_value (currentToken p3)) \<rparr>) p3))"

definition useStatement :: "Token \<Rightarrow> Parser \<Rightarrow> error + Parser" where
  "useStatement statementToken p =
     (case expectIdentifier (advanceToken (onDocument (enterSection SShape statementToken) p)) of
        (None, p1) \<Rightarrow> Inr (withMessage ''Expected shape ID.'' statementToken None True p1)
      | (Some identifierToken, p1) \<Rightarrow>
          (let identifier = Identifier_new (tok_value identifierToken);
               p2 = (case id_namespace identifier of
                       None \<Rightarrow>
                         withMessage ''Shape ID must be absolute.'' identifierToken None False p1
                     | Some ns \<Rightarrow>
                         (if ns = []
                          then withMessage ''Missing namespace.'' identifierToken None False p1
                          else p1));
               p3 = (if id_member identifier \<noteq> None
                     then withMessage
                            ''Shapes IDs with member names cannot be imported with a use statement.''
                            identifierToken None False p2
                     else p2)
           in andThen (tryOnDocument (addShape identifier identifierToken) p3)
                (\<lambda>p4. Inr (onDocument (addReference identifier identifierToken RUse) p4))))"

definition applyStatement :: "nat \<Rightarrow> Token \<Rightarrow> Parser \<Rightarrow> Parser option" where
  "applyStatement n statementToken p =
     (case expectIdentifier (advanceToken (onDocument (enterSection SShape statementToken) p)) of
        (None, p1) \<Rightarrow> Some (withMessage ''Expected shape ID.'' statementToken None True p1)
      | (Some identifierToken, p1) \<Rightarrow>
          expectTrait n statementToken
            (onDocument
               (addReference (Identifier_new (tok_value identifierToken)) identifierToken RApply)
               p1))"

text \<open>
  What the shape statement does with the node of \<^verbatim>\<open>expectNodeObject\<close> when the name
  is there: it may throw.
\<close>

definition declareShape ::
  "Host \<Rightarrow> Token \<Rightarrow> Token \<Rightarrow> Node option \<Rightarrow> ParsedDocument \<Rightarrow> error + ParsedDocument" where
  "declareShape host statementToken identifierToken node doc =
     (let identifier = Identifier_new (tok_value identifierToken)
      in andThen (addShape identifier identifierToken doc)
           (\<lambda>doc0.
              (let doc1 = addReference identifier identifierToken RShape doc0
               in case node of
                    None \<Rightarrow> Inr doc1
                  | Some n \<Rightarrow>
                      andThen
                        (validateValueAgainstSchema host identifierToken node
                           (map_of Schema_table (tok_value statementToken)) doc1)
                        (\<lambda>doc2.
                           andThen (Object_entries (node_value n))
                             (\<lambda>entries.
                                forEach
                                  (\<lambda>(fieldName, fieldValue).
                                     addMember identifier identifierToken fieldValue)
                                  entries doc2)))))"

definition shapeStatement :: "Host \<Rightarrow> nat \<Rightarrow> Token \<Rightarrow> Parser \<Rightarrow> (error + Parser) option" where
  "shapeStatement host n statementToken p =
     (case expectIdentifier (advanceToken (onDocument (enterSection SShape statementToken) p)) of
        (identifierToken, p1) \<Rightarrow>
          (let p2 = (if identifierToken = None
                     then withMessage (''Expected '' @ tok_value statementToken @ '' name.'')
                            statementToken None True p1
                     else p1)
           in map_option
                (\<lambda>(node, p3).
                   (case identifierToken of
                      None \<Rightarrow> Inr p3
                    | Some t \<Rightarrow>
                        tryOnDocument (declareShape host statementToken t node) p3))
                (expectNodeObject n (orElse identifierToken statementToken) p2)))"

definition simpleShapeStatement :: "Token \<Rightarrow> Parser \<Rightarrow> error + Parser" where
  "simpleShapeStatement statementToken p =
     (case expectIdentifier
             (advanceToken (onDocument (enterSection SShape (currentToken p)) p)) of
        (None, p1) \<Rightarrow>
          Inr (withMessage (''Expected '' @ tok_value statementToken @ '' name.'')
                 statementToken None True p1)
      | (Some identifierToken, p1) \<Rightarrow>
          (let identifier = Identifier_new (tok_value identifierToken)
           in andThen (tryOnDocument (addShape identifier identifierToken) p1)
                (\<lambda>p2. Inr (onDocument (addReference identifier identifierToken RShape) p2))))"

definition unexpectedToken :: "Host \<Rightarrow> Parser \<Rightarrow> error + Parser" where
  "unexpectedToken host p =
     andThen (encodeURIComponent host (tok_value (currentToken p)))
       (\<lambda>encoded.
          Inr (advanceToken
                 (withMessage (''Unexpected token: '' @ tok_value (currentToken p)
                                 @ '' ('' @ encoded @ '')'')
                    (currentToken p) None False p)))"

text \<open>One pass of the loop of \<^verbatim>\<open>parse\<close>: the statement at the current token.\<close>

definition statement :: "Host \<Rightarrow> nat \<Rightarrow> Parser \<Rightarrow> (error + Parser) option" where
  "statement host n p =
     (let statementToken = currentToken p
      in if tok_type statementToken = TIdentifier
         then (if tok_value statementToken = ''metadata''
               then map_option Inr (metadataStatement host n statementToken p)
               else if tok_value statementToken = ''namespace''
               then Some (Inr (namespaceStatement statementToken p))
               else if tok_value statementToken = ''use''
               then Some (useStatement statementToken p)
               else if tok_value statementToken = ''apply''
               then map_option Inr (applyStatement n statementToken p)
               else if tok_value statementToken \<in> set shapeStatementNames
               then shapeStatement host n statementToken p
               else if tok_value statementToken \<in> set simpleShapeNames
               then Some (simpleShapeStatement statementToken p)
               else if charAt (tok_value statementToken) 0 = ''@''
               then map_option Inr (expectTrait n statementToken p)
               else if charAt (tok_value statementToken) 0 = ''$''
               then map_option Inr
                      (expectControlStatement host n
                         (onDocument (enterSection SControl (currentToken p)) p))
               else Some (Inr (advanceToken
                                 (withMessage (''Unexpected identifier: '' @ tok_value (currentToken p))
                                    (currentToken p) None False p))))
         else Some (unexpectedToken host p))"

section \<open>The loop of the parser\<close>

text \<open>
  \<^verbatim>\<open>parse\<close>. The number \<open>n\<close> bounds the passes of the loop and the depth of the calls
  in a pass; \<open>None\<close> is a call that does not return within it, \<open>Inl\<close> an exception that
  leaves \<^verbatim>\<open>parse\<close>.
\<close>

fun parseLoop :: "Host \<Rightarrow> nat \<Rightarrow> Parser \<Rightarrow> (error + Parser) option" where
  "parseLoop host 0 p = None"
| "parseLoop host (Suc n) p =
     (if tok_type (currentToken p) = TEnd then Some (Inr p)
      else (case statement host n p of
              None \<Rightarrow> None
            | Some (Inl e) \<Rightarrow> Some (Inl e)
            | Some (Inr p1) \<Rightarrow> parseLoop host n p1))"

definition parse :: "Host \<Rightarrow> nat \<Rightarrow> Parser \<Rightarrow> (error + Parser) option" where
  "parse host n p = map_option (map_sum id (onDocument finishParsing)) (parseLoop host n p)"


section \<open>Tokens left\<close>

text \<open>
  The tokens that the parser has not consumed: those that the generator has still to yield,
  and the current token unless it is the end.
\<close>

definition remaining :: "Parser \<Rightarrow> nat" where
  "remaining p = length (tokens p) + (if tok_type (currentToken p) = TEnd then 0 else 1)"


section \<open>Progress of the parser\<close>

subsection \<open>The tokens left after the operations of the parser\<close>


lemma remaining_advanceToken_less:
  assumes "tok_type (currentToken p) \<noteq> TEnd"
  shows "remaining (advanceToken p) < remaining p"
  using assms by (simp add: remaining_def advanceToken_def split: list.splits)

lemma currentToken_withMessage [simp]:
  "currentToken (withMessage msg token mtype after p) = currentToken p"
  by (simp add: withMessage_def)

lemma tokens_withMessage [simp]: "tokens (withMessage msg token mtype after p) = tokens p"
  by (simp add: withMessage_def)

lemma currentToken_withReference [simp]:
  "currentToken (withReference identifier token rtype p) = currentToken p"
  by (simp add: withReference_def)

lemma tokens_withReference [simp]: "tokens (withReference identifier token rtype p) = tokens p"
  by (simp add: withReference_def)

lemma currentToken_onDocument [simp]: "currentToken (onDocument f p) = currentToken p"
  by (simp add: onDocument_def)

lemma tokens_onDocument [simp]: "tokens (onDocument f p) = tokens p"
  by (simp add: onDocument_def)


lemma remaining_withMessage [simp]:
  "remaining (withMessage msg token mtype after p) = remaining p"
  by (simp add: remaining_def)

lemma remaining_withReference [simp]:
  "remaining (withReference identifier token rtype p) = remaining p"
  by (simp add: remaining_def)

lemma remaining_onDocument [simp]: "remaining (onDocument f p) = remaining p"
  by (simp add: remaining_def)

lemma isDelimiter_withMessage [simp]:
  "isDelimiter d (withMessage msg token mtype after p) = isDelimiter d p"
  by (simp add: isDelimiter_def)

lemma isDelimiter_withReference [simp]:
  "isDelimiter d (withReference identifier token rtype p) = isDelimiter d p"
  by (simp add: isDelimiter_def)





lemma expectIdentifier_Identifier:
  assumes "tok_type (currentToken p) = TIdentifier"
  shows "fst (expectIdentifier p) = Some (currentToken p)"
    and "remaining (snd (expectIdentifier p)) < remaining p"
  using assms by (simp_all add: expectIdentifier_def remaining_advanceToken_less)




subsection \<open>Methods that return\<close>






















subsection \<open>Statements that return\<close>



















section \<open>Example texts\<close>

text \<open>A token given by its type, the two positions of its range, its text and its value.\<close>

definition example_at ::
  "TokenType \<Rightarrow> nat \<Rightarrow> nat \<Rightarrow> nat \<Rightarrow> nat \<Rightarrow> nat \<Rightarrow> nat \<Rightarrow> string \<Rightarrow> string \<Rightarrow> Token" where
  "example_at ttype i l c i' l' c' txt v =
     \<lparr> tok_type = ttype, tok_start = \<lparr> index = i, line = l, column = c \<rparr>,
       tok_end = \<lparr> index = i', line = l', column = c' \<rparr>, tok_text = txt, tok_value = v \<rparr>"

definition example_unterminated :: string where
  "example_unterminated = ''x = '' @ [CHR 0x22] @ ''abc''"

definition example_terminated :: string where
  "example_terminated = ''x = '' @ [CHR 0x22] @ ''abc'' @ [CHR 0x22, CHR 0x0A] @ ''// y'' @ [CHR 0x0A]"

definition example_two_lines :: string where
  "example_two_lines = ''a'' @ [CHR 0x0A] @ ''b''"

section \<open>Properties of the lexer\<close>

lemma scan_example_terminated:
  "scan example_terminated =
     Some [Consumed Whitespace [],
           Yielded (example_at TIdentifier 0 0 0 1 0 1 ''x'' ''x''),
           Consumed Whitespace '' '',
           Yielded (example_at TDelimiter 2 0 2 3 0 3 ''='' ''=''),
           Consumed Whitespace '' '',
           Yielded (example_at TString 4 0 4 9 1 0 ([CHR 0x22] @ ''abc'' @ [CHR 0x22]) ''abc''),
           Consumed Whitespace [],
           Consumed LineBreak [CHR 0x0A],
           Consumed Whitespace [],
           Consumed CommentSpan (''// y'' @ [CHR 0x0A])]"
  unfolding example_terminated_def example_at_def by code_simp

lemma scan_example_unterminated:
  "scan example_unterminated =
     Some [Consumed Whitespace [],
           Yielded (example_at TIdentifier 0 0 0 1 0 1 ''x'' ''x''),
           Consumed Whitespace '' '',
           Yielded (example_at TDelimiter 2 0 2 3 0 3 ''='' ''=''),
           Consumed Whitespace '' '',
           Consumed UnterminatedString ([CHR 0x22] @ ''abc'')]"
  unfolding example_unterminated_def example_at_def by code_simp

subsection \<open>Round trip\<close>

text \<open>
  C3 (amended). For every text on which the lexer terminates, the texts of the yielded
  tokens and the spans it consumed without a yield, taken in order, add up to the text,
  when the spans are those of whitespace, comments, line breaks and of a string literal
  that reaches the end of the text before its closing quote. With the spans of whitespace,
  comments and line breaks alone they add up to the text when no string literal is left
  without its closing quote.
\<close>

theorem scan_round_trip:
  assumes "scan src = Some segments"
  shows "concat (map segmentText segments) = src
       \<and> (\<not> list_ex isUnterminated segments \<longrightarrow> concat (map listedText segments) = src)"
proof -
  have "concat (map segmentText segments) = src"
    using scanLoop_text [of "Lexer_new src" segments] assms
    by (simp add: scan_def Lexer_new_def)
  then show ?thesis
    by (simp add: listedText_concat)
qed

theorem scan_round_trip_witness:
  "scan example_terminated =
     Some [Consumed Whitespace [],
           Yielded (example_at TIdentifier 0 0 0 1 0 1 ''x'' ''x''),
           Consumed Whitespace '' '',
           Yielded (example_at TDelimiter 2 0 2 3 0 3 ''='' ''=''),
           Consumed Whitespace '' '',
           Yielded (example_at TString 4 0 4 9 1 0 ([CHR 0x22] @ ''abc'' @ [CHR 0x22]) ''abc''),
           Consumed Whitespace [],
           Consumed LineBreak [CHR 0x0A],
           Consumed Whitespace [],
           Consumed CommentSpan (''// y'' @ [CHR 0x0A])]
   \<and> the (map_option (list_ex isUnterminated) (scan example_terminated)) = False
   \<and> map_option (concat \<circ> map segmentText) (scan example_terminated) = Some example_terminated
   \<and> map_option (concat \<circ> map listedText) (scan example_terminated) = Some example_terminated"
proof -
  note s = scan_example_terminated
  have u: "\<not> list_ex isUnterminated (the (scan example_terminated))"
    by (simp add: s)
  show ?thesis
    using s u scan_round_trip [of example_terminated "the (scan example_terminated)"]
    by simp
qed

text \<open>
  The claim as stated counts only the spans of whitespace, comments and line breaks and
  includes the texts with a string literal that reaches the end of the text before its
  closing quote. For \<open>x = "abc\<close> the lexer yields \<open>x\<close> and \<open>=\<close> and yields nothing for
  the literal, so the tokens and those spans add up to \<open>x = \<close> only.
\<close>

theorem scan_round_trip_counterexample:
  "scan example_unterminated =
     Some [Consumed Whitespace [],
           Yielded (example_at TIdentifier 0 0 0 1 0 1 ''x'' ''x''),
           Consumed Whitespace '' '',
           Yielded (example_at TDelimiter 2 0 2 3 0 3 ''='' ''=''),
           Consumed Whitespace '' '',
           Consumed UnterminatedString ([CHR 0x22] @ ''abc'')]
   \<and> map_option (concat \<circ> map listedText) (scan example_unterminated) = Some ''x = ''
   \<and> example_unterminated \<noteq> ''x = ''"
  by (simp add: scan_example_unterminated) (simp add: example_at_def example_unterminated_def)

subsection \<open>A comment at the end of the text\<close>

lemma list_ex_drop_Suc:
  assumes "list_ex P (drop (Suc n) xs)"
  shows "list_ex P (drop n xs)"
proof -
  have "drop (Suc n) xs = tl (drop n xs)"
    by (simp add: drop_Suc tl_drop)
  with assms show ?thesis
    by (cases "drop n xs") simp_all
qed

lemma commentBranch_None:
  assumes "\<not> list_ex isLineFeed (drop (Suc (Suc (index (position lx)))) (source lx))"
  shows "commentBranch lx = None"
proof -
  have "\<not> list_ex isLineFeed (drop (Suc (Suc (Suc (index (position lx))))) (source lx))"
    using assms list_ex_drop_Suc by blast
  with assms show ?thesis
    by (simp add: commentBranch_def Let_def skipUntil_def skipUntilLoop_None)
qed

lemma scanLoop_None:
  assumes "\<not> ended lx" and "\<not> list_ex isSpaceOrTab (currentChar lx)"
    and "currentChar lx = ''/''" and "peek lx = ''/''"
    and "\<not> list_ex isLineFeed (drop (Suc (Suc (index (position lx)))) (source lx))"
  shows "scanLoop lx = None"
proof -
  have "skipWhitespace lx = (False, lx)"
    using assms(2) by (subst skipWhitespace.simps) simp
  moreover have "scanToken lx = None"
    using assms(3,4) commentBranch_None [OF assms(5)] by (simp add: scanToken_def)
  ultimately show ?thesis
    using assms(1) by (subst scanLoop.simps) simp
qed

text \<open>
  C1 (the code does not do what the claim says). On a text that ends in a line comment with
  no line feed after it, \<^verbatim>\<open>skipUntil\<close> never returns: at the end of the text
  \<^verbatim>\<open>char()\<close> is the empty string, which does not match the line feed, so the loop goes
  on advancing. The generator then yields no end of the sequence for \<open>// x\<close>.
\<close>

theorem getTokens_comment_at_end: "getTokens ''// x'' = None"
proof -
  have "scanLoop (Lexer_new ''// x'') = None"
    by (rule scanLoop_None)
      (simp_all add: Lexer_new_def ended_def currentChar_def charAt_def peek_def
        isSpaceOrTab_def isLineFeed_def)
  then show ?thesis
    by (simp add: getTokens_def scan_def)
qed

subsection \<open>Positions after a line feed\<close>

text \<open>
  C4 (the code does not do what the claim says). \<^verbatim>\<open>advance()\<close> counts the line up when
  the unit it arrives at is a line feed, not when it leaves one. In the text of the two lines
  \<open>a\<close> and \<open>b\<close> the token \<open>a\<close> ends at index 1, which is line 0, column 1, and the
  token \<open>b\<close> runs from index 2, which is line 1, column 0, to index 3; the lexer gives
  line 1, column 0 for the end of \<open>a\<close> and columns 1 and 2 for \<open>b\<close>.
\<close>

theorem getTokens_positions_after_line_feed:
  "getTokens example_two_lines =
     Some [example_at TIdentifier 0 0 0 1 1 0 ''a'' ''a'',
           example_at TIdentifier 2 1 1 3 1 2 ''b'' ''b'']
   \<and> exactPosition example_two_lines 1 = \<lparr> index = 1, line = 0, column = 1 \<rparr>
   \<and> exactPosition example_two_lines 2 = \<lparr> index = 2, line = 1, column = 0 \<rparr>
   \<and> exactPosition example_two_lines 3 = \<lparr> index = 3, line = 1, column = 1 \<rparr>"
proof -
  have "getTokens example_two_lines =
     Some [example_at TIdentifier 0 0 0 1 1 0 ''a'' ''a'',
           example_at TIdentifier 2 1 1 3 1 2 ''b'' ''b'']"
    unfolding example_two_lines_def example_at_def by code_simp
  then show ?thesis
    by (simp add: exactPosition_def example_two_lines_def isLineFeed_def)
qed

section \<open>Example documents\<close>

text \<open>
  A token \<open>name\<close> on one line, and four documents built with the operations of
  \<open>ParsedDocument\<close>: one that refers to \<open>Foo\<close> without defining it, one of the same
  namespace that defines \<open>Foo\<close> (\<open>addShape\<close> throws nothing there), the first one with
  a parse-time message, validated once, and one that refers to \<open>toString\<close> without
  defining it, as the text \<^verbatim>\<open>structure Bar { baz: toString }\<close> does.
\<close>

definition example_token :: "nat \<Rightarrow> nat \<Rightarrow> nat \<Rightarrow> string \<Rightarrow> Token" where
  "example_token i l c name =
     \<lparr> tok_type = TIdentifier,
       tok_start = \<lparr> index = i, line = l, column = c \<rparr>,
       tok_end = \<lparr> index = i + length name, line = l, column = c + length name \<rparr>,
       tok_text = name, tok_value = name \<rparr>"

definition example_user :: ParsedDocument where
  "example_user =
     finishParsing
       (addReference (Identifier_new ''Foo'') (example_token 40 2 5 ''Foo'') RMember
          ((ParsedDocument_new ''file:///user.smithy'')\<lparr> namespace := Some ''com.example'' \<rparr>))"

definition example_provider :: ParsedDocument where
  "example_provider =
     (let doc = (ParsedDocument_new ''file:///provider.smithy'')\<lparr> namespace := Some ''com.example'' \<rparr>
      in case addShape (Identifier_new ''Foo'') (example_token 29 1 7 ''Foo'') doc of
           Inr doc1 \<Rightarrow> finishParsing doc1
         | Inl e \<Rightarrow> doc)"

definition example_broken :: ParsedDocument where
  "example_broken =
     validate []
       (finishParsing
          (addMessage ''Expected key.'' (example_token 44 2 9 ''}'') None False
             (addReference (Identifier_new ''Foo'') (example_token 40 2 5 ''Foo'') RMember
                ((ParsedDocument_new ''file:///user.smithy'')\<lparr> namespace := Some ''com.example'' \<rparr>))))"

definition example_reference :: Reference where
  "example_reference =
     \<lparr> ref_token = example_token 40 2 5 ''Foo'', ref_identifier = Identifier_new ''Foo'',
       ref_type = RMember \<rparr>"

definition example_inherited :: ParsedDocument where
  "example_inherited =
     finishParsing
       (addReference (Identifier_new ''toString'') (example_token 40 2 5 ''toString'') RMember
          ((ParsedDocument_new ''file:///inherited.smithy'')\<lparr> namespace := Some ''com.example'' \<rparr>))"

text \<open>
  A reference to \<open>name\<close> whose token runs from \<open>(l, c)\<close> to \<open>(l', c')\<close>, a document whose
  references lie one after the other, and one whose first reference encloses the second.
\<close>

definition example_range :: "nat \<Rightarrow> nat \<Rightarrow> nat \<Rightarrow> nat \<Rightarrow> string \<Rightarrow> Reference" where
  "example_range l c l' c' name =
     \<lparr> ref_token =
         \<lparr> tok_type = TIdentifier,
           tok_start = \<lparr> index = 100 * l + c, line = l, column = c \<rparr>,
           tok_end = \<lparr> index = 100 * l' + c', line = l', column = c' \<rparr>,
           tok_text = name, tok_value = name \<rparr>,
       ref_identifier = Identifier_new name, ref_type = RMember \<rparr>"

text \<open>
  A host for the examples, which call \<^verbatim>\<open>encodeURIComponent\<close> on the text \<open>1\<close> alone,
  where it is the identity, and the other two built-ins not at all; and the parser at the
  start of a list of tokens, with a new document.
\<close>

definition example_host :: Host where
  "example_host =
     \<lparr> JSON_stringify = (\<lambda>node. ''undefined''), encodeURIComponent = Inr,
       Number_truthy = (\<lambda>t. True) \<rparr>"

definition example_start :: "Token list \<Rightarrow> Parser" where
  "example_start ts = Parser_new ts (ParsedDocument_new ''file:///example.smithy'')"

text \<open>
  The text of a document of the namespace \<open>com.example\<close> with one structure, whose one
  member has the given target, and the texts of the messages of that document after
  \<^verbatim>\<open>parse\<close> and \<^verbatim>\<open>validate\<close>, the document itself being the one that is tracked.
\<close>

definition example_member :: "string \<Rightarrow> string" where
  "example_member target =
     ''namespace com.example'' @ [CHR 0x0A] @ ''structure Bar { baz: '' @ target @ '' }''"

definition example_diagnostics :: "string \<Rightarrow> (error + string list) option" where
  "example_diagnostics text =
     (case getTokens text of
        None \<Rightarrow> None
      | Some ts \<Rightarrow>
          map_option
            (map_sum id
               (\<lambda>p. map msg_text (messages (validate [parsedDocument p] (parsedDocument p)))))
            (parse example_host (5 * length ts + 4) (example_start ts)))"

definition example_disjoint :: ParsedDocument where
  "example_disjoint =
     (ParsedDocument_new ''file:///lookup.smithy'')
       \<lparr> references := [example_range 0 0 0 3 ''One'', example_range 0 5 0 8 ''Two'',
                        example_range 1 2 1 6 ''Three''] \<rparr>"

definition example_nested :: ParsedDocument where
  "example_nested =
     (ParsedDocument_new ''file:///lookup.smithy'')
       \<lparr> references := [example_range 0 0 0 10 ''Outer'', example_range 0 2 0 3 ''Inner'',
                        example_range 0 20 0 30 ''Later''] \<rparr>"

section \<open>Properties of ParsedDocument\<close>

lemma messages_addMessage:
  "messages (addMessage msg token mtype after doc) =
     messages doc @
       [\<lparr> msg_type = (case mtype of None \<Rightarrow> MError | Some t \<Rightarrow> t),
          startIndex = (if \<not> after \<and> tok_type token \<noteq> TEnd
                        then int (index (tok_start token)) else int (index (tok_end token)) - 1),
          endIndex = int (index (tok_end token)), msg_text = msg \<rparr>]"
  by (simp add: addMessage_def Let_def)

lemma isExternalShape_cong:
  assumes "namespace d' = namespace d"
  shows "isExternalShape d' i fs = isExternalShape d i fs"
  using assms by (induction fs) auto

lemma resolveId_cong:
  assumes "namespace d' = namespace d" and "relativeShapes d' = relativeShapes d"
  shows "resolveId d' i = resolveId d i"
  unfolding resolveId_def assms ..

lemma isDefined_absolute:
  "isDefined m (ns @ CHR ''#'' # name) = (m (ns @ CHR ''#'' # name) \<noteq> None)"
proof -
  have "CHR ''#'' \<notin> set k" if "k \<in> set inheritedNames" for k
    using that by (auto simp add: inheritedNames_def)
  then have "ns @ CHR ''#'' # name \<notin> set inheritedNames"
    by fastforce
  then show ?thesis
    by (simp add: isDefined_def getProperty_def split: option.splits)
qed

lemma isDefined_empty: "isDefined Map.empty k = (k \<in> set inheritedNames)"
  by (simp add: isDefined_def getProperty_def)

lemma referenceMessages_eq:
  "referenceMessages d fs r =
     (if \<not> isDefined (shapes d) (resolveId d (ref_identifier r))
         \<and> \<not> isKnownReference (ref_identifier r)
         \<and> \<not> isExternalShape d (ref_identifier r) fs
      then [unknownShapeMessage (ref_token r)] else [])"
proof -
  have "isExternalShape (d\<lparr>messages := []\<rparr>) (ref_identifier r) fs
          = isExternalShape d (ref_identifier r) fs"
    by (rule isExternalShape_cong) simp
  moreover have "resolveId (d\<lparr>messages := []\<rparr>) (ref_identifier r)
          = resolveId d (ref_identifier r)"
    by (rule resolveId_cong) simp_all
  ultimately show ?thesis
    by (simp add: referenceMessages_def validateReference_def Let_def messages_addMessage
        unknownShapeMessage_def)
qed

lemma referenceMessages_cong:
  assumes "namespace d' = namespace d" and "relativeShapes d' = relativeShapes d"
    and "shapes d' = shapes d"
  shows "referenceMessages d' fs r = referenceMessages d fs r"
  unfolding referenceMessages_eq
    isExternalShape_cong [OF assms(1)] resolveId_cong [OF assms(1,2)] assms(3) ..

lemma referenceMessages_messages [simp]:
  "referenceMessages (d\<lparr>messages := m\<rparr>) = referenceMessages d"
  by (rule ext, rule ext, rule referenceMessages_cong) simp_all

lemma referenceMessages_references [simp]:
  "referenceMessages (d\<lparr>references := rs\<rparr>) = referenceMessages d"
  by (rule ext, rule ext, rule referenceMessages_cong) simp_all

lemma validateReference_appends:
  "validateReference fs r d = d\<lparr> messages := messages d @ referenceMessages d fs r \<rparr>"
  by (simp add: referenceMessages_eq validateReference_def Let_def addMessage_def
      unknownShapeMessage_def)

lemma fold_validateReference:
  "fold (validateReference fs) rs d =
     d\<lparr> messages := messages d @ concat (map (referenceMessages d fs) rs) \<rparr>"
proof (induction rs arbitrary: d)
  case Nil
  show ?case by simp
next
  case (Cons r rs)
  let ?d1 = "validateReference fs r d"
  have "fold (validateReference fs) (r # rs) d = fold (validateReference fs) rs ?d1"
    by simp
  also have "\<dots> = ?d1\<lparr> messages := messages ?d1 @ concat (map (referenceMessages ?d1 fs) rs) \<rparr>"
    by (rule Cons.IH)
  also have "\<dots> = d\<lparr> messages := messages d @ concat (map (referenceMessages d fs) (r # rs)) \<rparr>"
    by (simp add: validateReference_appends)
  finally show ?case .
qed

lemma validateReferences_eq:
  "validateReferences fs d =
     d\<lparr> references := sortArray compareReferences (references d),
        messages := messages d @
          concat (map (referenceMessages d fs) (sortArray compareReferences (references d))) \<rparr>"
  by (simp add: validateReferences_def Let_def fold_validateReference)

lemma namespaceMessages_messages [simp]:
  "namespaceMessages (d\<lparr>messages := m\<rparr>) = namespaceMessages d"
  by (simp add: namespaceMessages_def)

lemma validateNamespace_appends:
  "validateNamespace d = d\<lparr> messages := messages d @ namespaceMessages d \<rparr>"
  by (simp add: namespaceMessages_def validateNamespace_def addMessage_def Let_def
      split: option.splits)

lemma validate_eq:
  "validate fs d =
     d\<lparr> references := sortArray compareReferences (references d),
        messages := take (parsedMessageCount d) (messages d) @ namespaceMessages d
          @ concat (map (referenceMessages d fs) (sortArray compareReferences (references d))) \<rparr>"
  by (simp add: validate_def validateNamespace_appends validateReferences_eq)

lemma set_insertSorted [simp]: "set (insertSorted cmp x xs) = insert x (set xs)"
  by (induction xs) auto

lemma set_sortArray [simp]: "set (sortArray cmp xs) = set xs"
  by (induction xs) (simp_all add: sortArray_def)

lemma insertSorted_Nil: "sortArray cmp [x] = [x]"
  by (simp add: sortArray_def)

lemma Identifier_new_Foo:
  "Identifier_new ''Foo'' = \<lparr> id_namespace = None, id_name = ''Foo'', id_member = None \<rparr>"
  by (simp add: Identifier_new_def indexOf_def substring_def Let_def)

lemma not_known_Foo: "\<not> isKnownReference (Identifier_new ''Foo'')"
  by (simp add: Identifier_new_Foo isKnownReference_def simpleShapeNames_def preludeShapeNames_def)

lemma example_user_eq:
  "example_user =
     \<lparr> uri = ''file:///user.smithy'', sections = (\<lambda>_. None), metadata = Map.empty,
       namespace = Some ''com.example'', controls = Map.empty, relativeShapes = Map.empty,
       shapes = Map.empty, references = [example_reference], messages = [],
       parsedMessageCount = 0 \<rparr>"
  by (simp add: example_user_def finishParsing_def addReference_def ParsedDocument_new_def
      example_reference_def insertSorted_Nil)

lemma example_provider_fields:
  "namespace example_provider = Some ''com.example''"
  "relativeShapes example_provider ''Foo'' = Some [''com.example#Foo'']"
  by (simp_all add: example_provider_def finishParsing_def addShape_def ParsedDocument_new_def
      Let_def putItem_def resolveId_def Identifier_new_Foo toRelative_def truthy_def
      andThen_def isDefined_def getProperty_def inheritedNames_def)

subsection \<open>Revalidation keeps the parse-time messages\<close>

text \<open>
  C6. For a document that has finished parsing (\<open>parsedMessageCount\<close> is at most the number
  of messages), \<open>validate\<close> leaves \<open>parsedMessageCount\<close> and the first
  \<open>parsedMessageCount\<close> messages as they are, and its result does not depend on the
  messages that stood at index \<open>parsedMessageCount\<close> and beyond: they are discarded and
  computed again.
\<close>

theorem validate_keeps_parsed_messages:
  assumes "parsedMessageCount doc \<le> length (messages doc)"
  shows "parsedMessageCount (validate parsedFiles doc) = parsedMessageCount doc
       \<and> take (parsedMessageCount doc) (messages (validate parsedFiles doc))
           = take (parsedMessageCount doc) (messages doc)
       \<and> validate parsedFiles
            (doc\<lparr> messages := take (parsedMessageCount doc) (messages doc) @ stale \<rparr>)
           = validate parsedFiles doc"
proof -
  let ?n = "parsedMessageCount doc"
  have len: "length (take ?n (messages doc)) = ?n"
    using assms by simp
  have "parsedMessageCount (validate parsedFiles doc) = ?n"
    by (simp add: validate_eq)
  moreover have "take ?n (messages (validate parsedFiles doc)) = take ?n (messages doc)"
    using len by (simp add: validate_eq)
  moreover have "validate parsedFiles (doc\<lparr> messages := take ?n (messages doc) @ stale \<rparr>)
                   = validate parsedFiles doc"
    using len by (simp add: validate_def)
  ultimately show ?thesis by blast
qed

theorem validate_keeps_parsed_messages_witness:
  "parsedMessageCount example_broken \<le> length (messages example_broken)
   \<and> parsedMessageCount example_broken = 1
   \<and> length (messages example_broken) = 2
   \<and> parsedMessageCount (validate [example_provider] example_broken) = parsedMessageCount example_broken
   \<and> take (parsedMessageCount example_broken) (messages (validate [example_provider] example_broken))
       = take (parsedMessageCount example_broken) (messages example_broken)
   \<and> validate [example_provider]
        (example_broken\<lparr> messages := take (parsedMessageCount example_broken) (messages example_broken) @ [] \<rparr>)
       = validate [example_provider] example_broken"
proof -
  have n: "parsedMessageCount example_broken = 1"
    by (simp add: example_broken_def validate_eq finishParsing_def messages_addMessage
        addReference_def ParsedDocument_new_def)
  have len: "length (messages example_broken) = 2"
    by (simp add: example_broken_def validate_eq finishParsing_def messages_addMessage
        addReference_def ParsedDocument_new_def insertSorted_Nil referenceMessages_eq
        not_known_Foo [unfolded Identifier_new_Foo] namespaceMessages_def
        validateNamespace_def addMessage_def Let_def
        resolveId_def Identifier_new_Foo toRelative_def truthy_def
        isDefined_def getProperty_def inheritedNames_def)
  have h: "parsedMessageCount example_broken \<le> length (messages example_broken)"
    by (simp add: n len)
  show ?thesis
    using n len h validate_keeps_parsed_messages [OF h, of "[example_provider]" "[]"] by blast
qed

subsection \<open>The range of a message added with after\<close>

text \<open>
  C8 (amended). A message added with \<open>after: true\<close> gets the range of one unit that ends at
  the token's end: \<open>endIndex\<close> is the index of the token's end and \<open>startIndex\<close> is one
  less, so the range covers the last code unit of the token.
\<close>

theorem addMessage_after_range:
  "messages (addMessage msg token mtype True doc) =
     messages doc @
       [\<lparr> msg_type = (case mtype of None \<Rightarrow> MError | Some t \<Rightarrow> t),
          startIndex = int (index (tok_end token)) - 1,
          endIndex = int (index (tok_end token)), msg_text = msg \<rparr>]"
  by (simp add: messages_addMessage)

text \<open>
  The claim as stated, with \<open>startIndex\<close> and \<open>endIndex\<close> both at the token's end, fails
  for the token \<open>use\<close> at index 0: the range is from 2 to 3, the last unit of the token.
\<close>

theorem addMessage_after_counterexample:
  "startIndex (last (messages (addMessage ''Expected shape ID.'' (example_token 0 0 0 ''use'')
       None True (ParsedDocument_new ''file:///user.smithy'')))) = 2
   \<and> endIndex (last (messages (addMessage ''Expected shape ID.'' (example_token 0 0 0 ''use'')
       None True (ParsedDocument_new ''file:///user.smithy'')))) = 3
   \<and> index (tok_end (example_token 0 0 0 ''use'')) = 3
   \<and> tok_text (example_token 0 0 0 ''use'') = ''use''"
  by (simp add: messages_addMessage example_token_def ParsedDocument_new_def)

subsection \<open>Unknown shapes\<close>

lemma Identifier_new_toString:
  "Identifier_new ''toString''
     = \<lparr> id_namespace = None, id_name = ''toString'', id_member = None \<rparr>"
  by (simp add: Identifier_new_def indexOf_def substring_def Let_def)

lemma example_inherited_eq:
  "example_inherited =
     \<lparr> uri = ''file:///inherited.smithy'', sections = (\<lambda>_. None), metadata = Map.empty,
       namespace = Some ''com.example'', controls = Map.empty, relativeShapes = Map.empty,
       shapes = Map.empty,
       references = [\<lparr> ref_token = example_token 40 2 5 ''toString'',
                       ref_identifier = Identifier_new ''toString'', ref_type = RMember \<rparr>],
       messages = [], parsedMessageCount = 0 \<rparr>"
  by (simp add: example_inherited_def finishParsing_def addReference_def ParsedDocument_new_def
      insertSorted_Nil)

lemma not_known_toString: "\<not> isKnownReference (Identifier_new ''toString'')"
  by (simp add: Identifier_new_toString isKnownReference_def simpleShapeNames_def
      preludeShapeNames_def)

lemma inherited_toString: "''toString'' \<in> set inheritedNames"
  by (simp add: inheritedNames_def)

text \<open>
  The reference of the example comes from a text: parsed and validated, the structure with
  a member that targets \<open>toString\<close> has no message, and the one with a member that
  targets \<open>Foo\<close> has the error.
\<close>

lemma example_diagnostics_inherited:
  "example_diagnostics (example_member ''toString'') = Some (Inr [])"
  "example_diagnostics (example_member ''Foo'') = Some (Inr [''Unknown shape.''])"
  unfolding example_member_def example_host_def example_start_def
  by code_simp+

text \<open>
  C5 (the code does not do what the claim says). The claim fails for a reference whose
  relative name is one that every JavaScript object inherits, such as \<open>toString\<close>, the
  target of the member in \<^verbatim>\<open>structure Bar { baz: toString }\<close>. The document
  \<open>example_inherited\<close> of the namespace \<open>com.example\<close> holds that one reference and
  defines no shape: its \<open>shapes\<close> are empty, so no id of the reference is in them,
  \<open>toString\<close> is not a known prelude, simple-shape or trait name, and no tracked
  document registers it as a relative shape
  (\<open>relativeShapes\<close> has no such property in the document itself or in \<open>example_provider\<close>,
  which defines \<open>Foo\<close> alone). Yet \<open>validate\<close> with these documents tracked adds no
  message: \<^verbatim>\<open>parsedDocument.relativeShapes['toString']\<close> in \<open>isExternalShape\<close> is the
  function that the dictionary inherits, which is truthy. With no document tracked
  \<open>validate\<close> does add the error \<open>Unknown shape.\<close>, as it does for the reference to \<open>Foo\<close>
  in \<open>example_user\<close>, which is tracked.
\<close>

theorem validate_misses_inherited_name:
  "references example_inherited
     = [\<lparr> ref_token = example_token 40 2 5 ''toString'',
          ref_identifier = \<lparr> id_namespace = None, id_name = ''toString'', id_member = None \<rparr>,
          ref_type = RMember \<rparr>]
   \<and> shapes example_inherited = Map.empty
   \<and> \<not> isKnownReference \<lparr> id_namespace = None, id_name = ''toString'', id_member = None \<rparr>
   \<and> namespace example_inherited = Some ''com.example''
   \<and> namespace example_provider = Some ''com.example''
   \<and> relativeShapes example_inherited ''toString'' = None
   \<and> relativeShapes example_provider ''toString'' = None
   \<and> messages (validate [example_inherited] example_inherited) = []
   \<and> messages (validate [example_inherited, example_provider] example_inherited) = []
   \<and> messages (validate [] example_inherited)
       = [unknownShapeMessage (example_token 40 2 5 ''toString'')]
   \<and> messages (validate [example_user] example_user)
       = [unknownShapeMessage (example_token 40 2 5 ''Foo'')]"
proof -
  have provider: "relativeShapes example_provider ''toString'' = None"
    by (simp add: example_provider_def finishParsing_def addShape_def ParsedDocument_new_def
        Let_def putItem_def resolveId_def Identifier_new_Foo toRelative_def truthy_def
        andThen_def isDefined_def getProperty_def inheritedNames_def)
  have ns: "namespaceMessages example_inherited = []" "namespaceMessages example_user = []"
    by (simp_all add: namespaceMessages_def validateNamespace_def example_inherited_eq
        example_user_eq)
  have tracked: "messages (validate [example_inherited] example_inherited) = []"
    "messages (validate [example_inherited, example_provider] example_inherited) = []"
    unfolding validate_eq
    by (simp_all add: ns) (simp_all add: example_inherited_eq insertSorted_Nil
        referenceMessages_eq Identifier_new_toString toRelative_def truthy_def isDefined_empty
        inherited_toString)
  have alone: "messages (validate [] example_inherited)
                 = [unknownShapeMessage (example_token 40 2 5 ''toString'')]"
    unfolding validate_eq
    by (simp add: ns) (simp add: example_inherited_eq insertSorted_Nil referenceMessages_eq
        not_known_toString [unfolded Identifier_new_toString] resolveId_def getProperty_def
        inherited_toString
        Identifier_new_toString toRelative_def truthy_def isDefined_empty inheritedNames_def)
  have user: "messages (validate [example_user] example_user)
                = [unknownShapeMessage (example_token 40 2 5 ''Foo'')]"
    unfolding validate_eq
    by (simp add: ns) (simp add: example_user_eq example_reference_def insertSorted_Nil
        referenceMessages_eq not_known_Foo [unfolded Identifier_new_Foo] resolveId_def
        getProperty_def Identifier_new_Foo toRelative_def truthy_def isDefined_empty
        inheritedNames_def)
  show ?thesis
    using provider tracked alone user not_known_toString
    by (simp add: example_inherited_eq example_provider_fields Identifier_new_toString)
qed

subsection \<open>The whitelist of known names\<close>

text \<open>
  C10 (amended). \<open>isKnownReference\<close> is false for every identifier with a non-empty namespace
  or a non-empty member. So a reference to a prelude, simple-shape or trait name by its bare
  relative name gets no message, while the same name under a non-empty namespace gets the
  error \<open>Unknown shape.\<close> exactly when the document's \<open>shapes\<close> do not hold the absolute id
  and no tracked document of that namespace registers the name.
\<close>

theorem isKnownReference_unqualified_only:
  "(truthy (id_namespace identifier) \<or> truthy (id_member identifier)
      \<longrightarrow> \<not> isKnownReference identifier)
   \<and> (name \<in> set simpleShapeNames \<union> set preludeShapeNames \<longrightarrow>
        referenceMessages doc parsedFiles
          \<lparr> ref_token = token,
            ref_identifier = \<lparr> id_namespace = None, id_name = name, id_member = None \<rparr>,
            ref_type = rtype \<rparr> = [])
   \<and> (ns \<noteq> [] \<longrightarrow>
        referenceMessages doc parsedFiles
          \<lparr> ref_token = token,
            ref_identifier = \<lparr> id_namespace = Some ns, id_name = name, id_member = None \<rparr>,
            ref_type = rtype \<rparr>
        = (if shapes doc (ns @ ''#'' @ name) = None
              \<and> \<not> isExternalShape doc
                     \<lparr> id_namespace = Some ns, id_name = name, id_member = None \<rparr> parsedFiles
           then [unknownShapeMessage token] else []))"
  by (auto simp add: isKnownReference_def referenceMessages_eq truthy_def resolveId_def
      isDefined_absolute)

theorem isKnownReference_unqualified_only_witness:
  "truthy (id_namespace (Identifier_new ''smithy.api#String''))
   \<and> \<not> isKnownReference (Identifier_new ''smithy.api#String'')
   \<and> ''String'' \<in> set simpleShapeNames \<union> set preludeShapeNames
   \<and> ''smithy.api'' \<noteq> []
   \<and> Identifier_new ''String'' = \<lparr> id_namespace = None, id_name = ''String'', id_member = None \<rparr>
   \<and> Identifier_new ''smithy.api#String''
       = \<lparr> id_namespace = Some ''smithy.api'', id_name = ''String'', id_member = None \<rparr>
   \<and> referenceMessages example_user [example_user]
        \<lparr> ref_token = example_token 40 2 5 ''String'',
          ref_identifier = Identifier_new ''String'', ref_type = RMember \<rparr> = []
   \<and> referenceMessages example_user [example_user]
        \<lparr> ref_token = example_token 40 2 5 ''smithy.api#String'',
          ref_identifier = Identifier_new ''smithy.api#String'', ref_type = RMember \<rparr>
       = [unknownShapeMessage (example_token 40 2 5 ''smithy.api#String'')]"
proof -
  have rel: "Identifier_new ''String''
               = \<lparr> id_namespace = None, id_name = ''String'', id_member = None \<rparr>"
    by (simp add: Identifier_new_def indexOf_def substring_def Let_def)
  have abs: "Identifier_new ''smithy.api#String''
               = \<lparr> id_namespace = Some ''smithy.api'', id_name = ''String'', id_member = None \<rparr>"
    by (simp add: Identifier_new_def indexOf_def substring_def Let_def)
  have t: "truthy (id_namespace (Identifier_new ''smithy.api#String''))"
    by (simp add: abs truthy_def)
  have m: "''String'' \<in> set simpleShapeNames \<union> set preludeShapeNames"
    by (simp add: preludeShapeNames_def)
  have n: "''smithy.api'' \<noteq> []"
    by simp
  have s: "shapes example_user (''smithy.api'' @ ''#'' @ ''String'') = None"
    by (simp add: example_user_eq)
  have e: "\<not> isExternalShape example_user
               \<lparr> id_namespace = Some ''smithy.api'', id_name = ''String'', id_member = None \<rparr>
               [example_user]"
    by (simp add: truthy_def) (simp add: example_user_eq)
  show ?thesis
    using t m n s e
      isKnownReference_unqualified_only [of "Identifier_new ''smithy.api#String''" "''String''"
        example_user "[example_user]" _ _ "''smithy.api''"]
    by (simp add: rel abs)
qed

text \<open>
  The claim as stated fails for an identifier whose namespace or member is the empty string:
  \<open>#String\<close> carries the explicit namespace \<open>\<close> and \<open>String$\<close> the member \<open>\<close>, and
  both are known references, since the test is the truthiness of the two fields.
\<close>

theorem isKnownReference_counterexample:
  "id_namespace (Identifier_new ''#String'') = Some []
   \<and> isKnownReference (Identifier_new ''#String'')
   \<and> id_member (Identifier_new ''String$'') = Some []
   \<and> isKnownReference (Identifier_new ''String$'')"
  by (simp add: Identifier_new_def indexOf_def substring_def Let_def isKnownReference_def
      truthy_def preludeShapeNames_def)

subsection \<open>Symbol lookup\<close>

lemma binarySearchLoop_correct:
  fixes compareFunction :: "'v \<Rightarrow> 'a \<Rightarrow> int"
  assumes right: "\<And>i j. i \<le> j \<Longrightarrow> j < length array \<Longrightarrow>
      compareFunction element (array ! j) > 0 \<Longrightarrow> compareFunction element (array ! i) \<noteq> 0"
    and left: "\<And>i j. i \<le> j \<Longrightarrow> j < length array \<Longrightarrow>
      compareFunction element (array ! i) < 0 \<Longrightarrow> compareFunction element (array ! j) \<noteq> 0"
  shows "0 \<le> leftIndex \<Longrightarrow> rightIndex < int (length array) \<Longrightarrow>
    \<forall>i<length array. compareFunction element (array ! i) = 0
        \<longrightarrow> leftIndex \<le> int i \<and> int i \<le> rightIndex \<Longrightarrow>
    \<exists>k. binarySearchLoop array element compareFunction leftIndex rightIndex = Inr k
       \<and> (if 0 \<le> k then nat k < length array \<and> compareFunction element (array ! nat k) = 0
           else (\<forall>i<length array. compareFunction element (array ! i) \<noteq> 0))"
proof (induction "nat (rightIndex - leftIndex + 1)" arbitrary: leftIndex rightIndex
    rule: less_induct)
  case less
  note inv = less.prems(3)
  show ?case
  proof (cases "leftIndex \<le> rightIndex")
    case False
    then have "\<forall>i<length array. compareFunction element (array ! i) \<noteq> 0"
      using inv by fastforce
    with False less.prems(1) show ?thesis
      by (subst binarySearchLoop.simps) simp
  next
    case True
    define middleIndex where "middleIndex = leftIndex + (rightIndex - leftIndex) div 2"
    have mid: "leftIndex \<le> middleIndex" "middleIndex \<le> rightIndex"
      using True by (simp_all add: middleIndex_def)
    then have inside: "\<not> (middleIndex < 0 \<or> int (length array) \<le> middleIndex)"
      using less.prems(1,2) by simp
    have nat_mid: "nat middleIndex < length array"
      using inside by (auto simp add: nat_less_iff)
    let ?cmp = "compareFunction element (array ! nat middleIndex)"
    have unfold: "binarySearchLoop array element compareFunction leftIndex rightIndex =
        (if ?cmp > 0
         then binarySearchLoop array element compareFunction (middleIndex + 1) rightIndex
         else if ?cmp < 0
         then binarySearchLoop array element compareFunction leftIndex (middleIndex - 1)
         else Inr middleIndex)"
      using True inside
      by (subst binarySearchLoop.simps) (simp add: middleIndex_def [symmetric] Let_def)
    consider (gt) "?cmp > 0" | (lt) "?cmp < 0" | (eq) "?cmp = 0"
      by linarith
    then show ?thesis
    proof cases
      case gt
      have "\<forall>i<length array. compareFunction element (array ! i) = 0
              \<longrightarrow> middleIndex + 1 \<le> int i \<and> int i \<le> rightIndex"
      proof (intro allI impI)
        fix i assume i: "i < length array" "compareFunction element (array ! i) = 0"
        have "\<not> i \<le> nat middleIndex"
          using right [of i "nat middleIndex"] nat_mid gt i(2) by blast
        then show "middleIndex + 1 \<le> int i \<and> int i \<le> rightIndex"
          using inv i by auto
      qed
      moreover have "nat (rightIndex - (middleIndex + 1) + 1) < nat (rightIndex - leftIndex + 1)"
        using mid by simp
      moreover have "0 \<le> middleIndex + 1"
        using mid less.prems(1) by simp
      ultimately show ?thesis
        using less.hyps [of rightIndex "middleIndex + 1"] less.prems(2) gt
        by (simp only: unfold if_True)
    next
      case lt
      have "\<forall>i<length array. compareFunction element (array ! i) = 0
              \<longrightarrow> leftIndex \<le> int i \<and> int i \<le> middleIndex - 1"
      proof (intro allI impI)
        fix i assume i: "i < length array" "compareFunction element (array ! i) = 0"
        have "\<not> nat middleIndex \<le> i"
          using left [of "nat middleIndex" i] i lt by blast
        then show "leftIndex \<le> int i \<and> int i \<le> middleIndex - 1"
          using inv i by auto
      qed
      moreover have "nat (middleIndex - 1 - leftIndex + 1) < nat (rightIndex - leftIndex + 1)"
        using mid by simp
      moreover have "middleIndex - 1 < int (length array)"
        using inside by simp
      moreover have "\<not> ?cmp > 0"
        using lt by simp
      ultimately show ?thesis
        using less.hyps [of "middleIndex - 1" leftIndex] less.prems(1) lt
        by (simp only: unfold if_True if_False)
    next
      case eq
      then show ?thesis
        using nat_mid mid less.prems(1) by (simp add: unfold)
    qed
  qed
qed

lemma comparePosition_right:
  assumes "sorted_wrt endsInOrder rs" and "i \<le> j" and "j < length rs"
    and "comparePosition p (rs ! j) > 0"
  shows "comparePosition p (rs ! i) \<noteq> 0"
proof (cases "i = j")
  case True
  with assms(4) show ?thesis by simp
next
  case False
  then have "endsInOrder (rs ! i) (rs ! j)"
    using sorted_wrt_nth_less [OF assms(1), of i j] assms(2,3) by simp
  with assms(4) show ?thesis
    by (auto simp add: comparePosition_def endsInOrder_def Let_def split: if_splits)
qed

lemma comparePosition_left:
  assumes "sorted_wrt (\<lambda>a b. compareReferences a b \<le> 0) rs" and "i \<le> j" and "j < length rs"
    and "comparePosition p (rs ! i) < 0"
  shows "comparePosition p (rs ! j) \<noteq> 0"
proof (cases "i = j")
  case True
  with assms(4) show ?thesis by simp
next
  case False
  then have "compareReferences (rs ! i) (rs ! j) \<le> 0"
    using sorted_wrt_nth_less [OF assms(1), of i j] assms(2,3) by simp
  with assms(4) show ?thesis
    by (auto simp add: comparePosition_def compareReferences_def Let_def split: if_splits)
qed

lemma findSymbol_found:
  assumes "sorted_wrt (\<lambda>a b. compareReferences a b \<le> 0) (references doc)"
    and "sorted_wrt endsInOrder (references doc)"
  shows "\<exists>found. findSymbol doc l c = Inr found
     \<and> (case found of
           None \<Rightarrow> \<forall>r\<in>set (references doc). comparePosition (l, c) r \<noteq> 0
         | Some r \<Rightarrow> r \<in> set (references doc) \<and> comparePosition (l, c) r = 0)"
proof -
  let ?rs = "references doc"
  have "\<exists>k. binarySearchLoop ?rs (l, c) comparePosition 0 (int (length ?rs) - 1) = Inr k
       \<and> (if 0 \<le> k then nat k < length ?rs \<and> comparePosition (l, c) (?rs ! nat k) = 0
           else (\<forall>i<length ?rs. comparePosition (l, c) (?rs ! i) \<noteq> 0))"
  proof (rule binarySearchLoop_correct)
    fix i j
    assume "i \<le> j" "j < length ?rs"
    then show "comparePosition (l, c) (?rs ! j) > 0 \<Longrightarrow> comparePosition (l, c) (?rs ! i) \<noteq> 0"
      by (rule comparePosition_right [OF assms(2)])
    from \<open>i \<le> j\<close> \<open>j < length ?rs\<close>
    show "comparePosition (l, c) (?rs ! i) < 0 \<Longrightarrow> comparePosition (l, c) (?rs ! j) \<noteq> 0"
      by (rule comparePosition_left [OF assms(1)])
  qed auto
  then obtain k where k: "binarySearch ?rs (l, c) comparePosition = Inr k"
    and res: "if 0 \<le> k then nat k < length ?rs \<and> comparePosition (l, c) (?rs ! nat k) = 0
           else (\<forall>i<length ?rs. comparePosition (l, c) (?rs ! i) \<noteq> 0)"
    by (auto simp add: binarySearch_def)
  show ?thesis
  proof (cases "0 \<le> k")
    case True
    with k res show ?thesis by (simp add: findSymbol_def)
  next
    case False
    with res have "\<forall>r\<in>set ?rs. comparePosition (l, c) r \<noteq> 0"
      by (auto simp add: in_set_conv_nth)
    with k False show ?thesis by (simp add: findSymbol_def)
  qed
qed

text \<open>
  C7 (amended). For a document whose references are sorted by the start of their tokens and
  also by the end of their tokens (as they are when no token range reaches past the start
  of the next), \<open>findSymbol\<close> returns a reference whose range contains the position, or
  none when no reference's range contains it; and when at most one reference contains the
  position, it returns what the linear scan with the same test returns.
\<close>

theorem findSymbol_agrees_with_scan:
  assumes "sorted_wrt (\<lambda>a b. compareReferences a b \<le> 0) (references doc)"
    and "sorted_wrt endsInOrder (references doc)"
  shows "(\<exists>found. findSymbol doc l c = Inr found
            \<and> (case found of
                  None \<Rightarrow> \<forall>r\<in>set (references doc). comparePosition (l, c) r \<noteq> 0
                | Some r \<Rightarrow> r \<in> set (references doc) \<and> comparePosition (l, c) r = 0))
       \<and> ((\<forall>a\<in>set (references doc). \<forall>b\<in>set (references doc).
              comparePosition (l, c) a = 0 \<longrightarrow> comparePosition (l, c) b = 0 \<longrightarrow> a = b)
            \<longrightarrow> findSymbol doc l c
                  = Inr (find (\<lambda>r. comparePosition (l, c) r = 0) (references doc)))"
proof -
  let ?rs = "references doc" and ?P = "\<lambda>r. comparePosition (l, c) r = 0"
  obtain found where f: "findSymbol doc l c = Inr found"
    and res: "case found of None \<Rightarrow> \<forall>r\<in>set ?rs. \<not> ?P r | Some r \<Rightarrow> r \<in> set ?rs \<and> ?P r"
    using findSymbol_found [OF assms] by blast
  have "found = find ?P ?rs" if uniq: "\<forall>a\<in>set ?rs. \<forall>b\<in>set ?rs. ?P a \<longrightarrow> ?P b \<longrightarrow> a = b"
  proof (cases found)
    case None
    with res show ?thesis by (simp add: find_None_iff2)
  next
    case (Some r)
    with res have r: "r \<in> set ?rs" "?P r" by simp_all
    then obtain x where x: "find ?P ?rs = Some x"
      by (cases "find ?P ?rs") (auto simp add: find_None_iff)
    then have "x \<in> set ?rs" "?P x"
      by (auto simp add: find_Some_iff)
    with uniq r have "x = r" by blast
    with x Some show ?thesis by simp
  qed
  with f res show ?thesis by blast
qed

lemma example_range_sel [simp]:
  "line (tok_start (ref_token (example_range l c l' c' n))) = l"
  "column (tok_start (ref_token (example_range l c l' c' n))) = c"
  "line (tok_end (ref_token (example_range l c l' c' n))) = l'"
  "column (tok_end (ref_token (example_range l c l' c' n))) = c'"
  by (simp_all add: example_range_def)

lemma example_range_eq [simp]:
  "(example_range l c l' c' n = example_range k d k' d' m)
     = (l = k \<and> c = d \<and> l' = k' \<and> c' = d' \<and> n = m)"
  by (auto simp add: example_range_def)

theorem findSymbol_agrees_with_scan_witness:
  "sorted_wrt (\<lambda>a b. compareReferences a b \<le> 0) (references example_disjoint)
   \<and> sorted_wrt endsInOrder (references example_disjoint)
   \<and> findSymbol example_disjoint 0 6 = Inr (Some (example_range 0 5 0 8 ''Two''))
   \<and> find (\<lambda>r. comparePosition (0, 6) r = 0) (references example_disjoint)
       = Some (example_range 0 5 0 8 ''Two'')
   \<and> findSymbol example_disjoint 0 4 = Inr None
   \<and> find (\<lambda>r. comparePosition (0, 4) r = 0) (references example_disjoint) = None"
proof -
  have refs: "references example_disjoint =
      [example_range 0 0 0 3 ''One'', example_range 0 5 0 8 ''Two'',
       example_range 1 2 1 6 ''Three'']"
    by (simp add: example_disjoint_def ParsedDocument_new_def)
  have h1: "sorted_wrt (\<lambda>a b. compareReferences a b \<le> 0) (references example_disjoint)"
    by (simp add: refs compareReferences_def)
  have h2: "sorted_wrt endsInOrder (references example_disjoint)"
    by (simp add: refs endsInOrder_def)
  have s6: "find (\<lambda>r. comparePosition (0, 6) r = 0) (references example_disjoint)
       = Some (example_range 0 5 0 8 ''Two'')"
    by (simp add: refs comparePosition_def)
  have s4: "find (\<lambda>r. comparePosition (0, 4) r = 0) (references example_disjoint) = None"
    by (simp add: refs comparePosition_def)
  have u6: "\<forall>a\<in>set (references example_disjoint). \<forall>b\<in>set (references example_disjoint).
              comparePosition (0, 6) a = 0 \<longrightarrow> comparePosition (0, 6) b = 0 \<longrightarrow> a = b"
    by (simp add: refs comparePosition_def)
  have u4: "\<forall>a\<in>set (references example_disjoint). \<forall>b\<in>set (references example_disjoint).
              comparePosition (0, 4) a = 0 \<longrightarrow> comparePosition (0, 4) b = 0 \<longrightarrow> a = b"
    by (simp add: refs comparePosition_def)
  show ?thesis
    using h1 h2 s6 s4 u6 u4
      findSymbol_agrees_with_scan [OF h1 h2, of 0 6]
      findSymbol_agrees_with_scan [OF h1 h2, of 0 4]
    by simp
qed

text \<open>
  The claim as stated asks only for the order by start. Then a reference can enclose the
  next one, and the search misses it: with \<open>Outer\<close> from column 0 to 10, \<open>Inner\<close> from 2
  to 3 and \<open>Later\<close> from 20 to 30 on line 0, the only reference that contains column 5 is
  \<open>Outer\<close>, the search probes \<open>Inner\<close>, moves right and returns none.
\<close>

theorem findSymbol_counterexample:
  "sorted_wrt (\<lambda>a b. compareReferences a b \<le> 0) (references example_nested)
   \<and> filter (\<lambda>r. comparePosition (0, 5) r = 0) (references example_nested)
       = [example_range 0 0 0 10 ''Outer'']
   \<and> find (\<lambda>r. comparePosition (0, 5) r = 0) (references example_nested)
       = Some (example_range 0 0 0 10 ''Outer'')
   \<and> findSymbol example_nested 0 5 = Inr None"
proof -
  have refs: "references example_nested =
      [example_range 0 0 0 10 ''Outer'', example_range 0 2 0 3 ''Inner'',
       example_range 0 20 0 30 ''Later'']"
    by (simp add: example_nested_def ParsedDocument_new_def)
  have "findSymbol example_nested 0 5 = Inr None"
    by (simp add: findSymbol_def binarySearch_def refs binarySearchLoop.simps
        comparePosition_def Let_def)
  then show ?thesis
    by (simp add: refs compareReferences_def comparePosition_def)
qed

section \<open>Duplicate keys of an object\<close>

text \<open>
  The text of an object body with the keys \<open>a\<close>, \<open>a2\<close> and \<open>a\<close> again, its tokens, and
  the pair that \<^verbatim>\<open>expectKeyValuePair\<close> makes of a key at index \<open>i\<close> and an identifier
  at index \<open>j\<close>.
\<close>

definition example_collision :: string where
  "example_collision = ''{a: x, a2: y, a: z}''"

definition example_delimiter :: "nat \<Rightarrow> string \<Rightarrow> Token" where
  "example_delimiter i d = example_at TDelimiter i 0 i (i + 1) 0 (i + 1) d d"

definition example_collision_tokens :: "Token list" where
  "example_collision_tokens =
     [example_delimiter 0 ''{'',
      example_token 1 0 1 ''a'', example_delimiter 2 '':'', example_token 4 0 4 ''x'',
      example_delimiter 5 '','',
      example_token 7 0 7 ''a2'', example_delimiter 9 '':'', example_token 11 0 11 ''y'',
      example_delimiter 12 '','',
      example_token 14 0 14 ''a'', example_delimiter 15 '':'', example_token 17 0 17 ''z'',
      example_delimiter 18 ''}'']"

definition example_pair :: "nat \<Rightarrow> string \<Rightarrow> nat \<Rightarrow> string \<Rightarrow> Node" where
  "example_pair i k j v =
     Node (Some \<lparr> key_value = k, key_token = example_token i 0 i k \<rparr>) (Str v)
       (Some (example_token j 0 j v))"

text \<open>
  C9 (the code does not do what the claim says). The key under which a pair with a repeated
  key is stored is the key followed by the number of keys stored so far, and the pair is
  stored there whether or not that key is taken. In \<open>{a: x, a2: y, a: z}\<close> the third pair
  repeats the key \<open>a\<close> when two keys are stored, so it is stored under \<open>a2\<close>, where the
  second pair was: the object that \<^verbatim>\<open>expectNodeObject\<close> returns holds \<open>a: x\<close> under
  \<open>a\<close> and \<open>a: z\<close> under \<open>a2\<close>, and the pair \<open>a2: y\<close>, which
  \<^verbatim>\<open>expectKeyValuePair\<close> had returned, is in it no more. The one message is for the
  repeated key \<open>a\<close>.
\<close>

theorem expectNodeObject_overwrites_pair:
  "getTokens example_collision = Some example_collision_tokens
   \<and> map_option fst
       (expectKeyValuePair 1 False None
          (Parser_new (drop 5 example_collision_tokens) (ParsedDocument_new [])))
     = Some (Some (example_pair 7 ''a2'' 11 ''y''))
   \<and> map_option fst
       (expectNodeObject 5 (example_delimiter 0 ''{'')
          (Parser_new example_collision_tokens (ParsedDocument_new [])))
     = Some (Some (Node None
                (Obj [(''a'', example_pair 1 ''a'' 4 ''x''), (''a2'', example_pair 14 ''a'' 17 ''z'')])
                (Some (example_delimiter 0 ''{''))))
   \<and> map_option (\<lambda>r. map msg_text (messages (parsedDocument (snd r))))
       (expectNodeObject 5 (example_delimiter 0 ''{'')
          (Parser_new example_collision_tokens (ParsedDocument_new [])))
     = Some [''Key '' @ [CHR 0x27] @ ''a'' @ [CHR 0x27] @ '' is already defined.'']"
  unfolding example_collision_def example_collision_tokens_def example_delimiter_def
    example_at_def example_token_def example_pair_def
  by code_simp


section \<open>Termination of the parser\<close>







end

